theory Spec2Isabelle
  imports Complex_Main "HOL-Library.Sublist"
begin

section \<open>TeamAssist: the task and clarification services\<close>

text \<open>
  A shallow embedding of \<^verbatim>\<open>backend/src/services/task.service.ts\<close> and of the listing
  controller of \<^verbatim>\<open>task.controller.ts\<close>. Every service is a function from the document
  store (and the request's arguments) to a result and the store it leaves behind; a
  thrown exception is the \<open>Inl\<close> of the result.

  Conventions of the model:
  \<^item> identifiers are the strings that \<^verbatim>\<open>toString()\<close> gives for an ObjectId; the store's
    cast of a string that is no ObjectId is not modelled;
  \<^item> a date is the instant it denotes (milliseconds since the epoch); a date string of a
    request is the empty string or the instant it denotes, which is what the request
    schema admits, and strings that denote no instant are outside the model;
  \<^item> a collection is the list of its documents in insertion order; a lookup answers with
    the first document that matches, as the store's \<^verbatim>\<open>findOne\<close> does;
  \<^item> \<^verbatim>\<open>populate\<close> only replaces references by the documents they name in the answer
    and is left out;
  \<^item> the clock (\<^verbatim>\<open>new Date()\<close>) and the store's fresh identifiers are arguments;
  \<^item> a document has the fields the services read and write; the instant of its last
    change, which the store keeps by itself, is not among them.
\<close>

subsection \<open>Data model\<close>

type_synonym oid = string
type_synonym date = int

text \<open>Modelled from the spec: \<^verbatim>\<open>enums/role.enum.ts\<close> is not among the sources; the roles
  are the three the specification names.\<close>

datatype RoleType = OWNER | ADMIN | MEMBER

text \<open>The exception classes of \<^verbatim>\<open>utils/appError\<close> that the services throw, and
  JavaScript's plain \<^verbatim>\<open>Error\<close>; \<open>MongoError\<close> stands for a rejection by the store.\<close>

datatype appError =
    NotFoundException string
  | BadRequestException string
  | UnauthorizedException string
  | Error string
  | MongoError string

record ProjectDocument =
  project_id :: oid
  project_workspace :: oid

record MemberDocument =
  userId :: oid
  workspaceId :: oid

record TaskDocument =
  task_id :: oid
  title :: string
  description :: "string option"
  priority :: string
  status :: string
  assignedTo :: "oid option"
  createdBy :: oid
  task_workspace :: oid
  task_project :: oid
  dueDate :: "date option"
  createdAt :: date

record ClarificationResponse =
  message :: string
  respondedBy :: oid
  response_createdAt :: date

record TaskClarificationDocument =
  clarification_id :: oid
  clarification_task :: oid
  clarification_workspace :: oid
  question :: string
  askedBy :: oid
  responses :: "ClarificationResponse list"
  clarification_createdAt :: date

record store =
  ProjectModel :: "ProjectDocument list"
  MemberModel :: "MemberDocument list"
  TaskModel :: "TaskDocument list"
  TaskClarificationModel :: "TaskClarificationDocument list"

subsection \<open>The store's operations\<close>

definition findOne :: "('a \<Rightarrow> bool) \<Rightarrow> 'a list \<Rightarrow> 'a option" where
  "findOne P xs = List.find P xs"

definition exists_doc :: "('a \<Rightarrow> bool) \<Rightarrow> 'a list \<Rightarrow> bool" where
  "exists_doc P xs = (findOne P xs \<noteq> None)"

fun updateFirst :: "('a \<Rightarrow> bool) \<Rightarrow> ('a \<Rightarrow> 'a) \<Rightarrow> 'a list \<Rightarrow> 'a list" where
  "updateFirst P f [] = []"
| "updateFirst P f (x # xs) = (if P x then f x # xs else x # updateFirst P f xs)"

fun deleteFirst :: "('a \<Rightarrow> bool) \<Rightarrow> 'a list \<Rightarrow> 'a list" where
  "deleteFirst P [] = []"
| "deleteFirst P (x # xs) = (if P x then xs else x # deleteFirst P xs)"

text \<open>\<^verbatim>\<open>findOneAndUpdate(filter, update, {new: true})\<close>: the updated document, or null,
  and the collection afterwards.\<close>

definition findOneAndUpdate ::
  "('a \<Rightarrow> bool) \<Rightarrow> ('a \<Rightarrow> 'a) \<Rightarrow> 'a list \<Rightarrow> 'a option \<times> 'a list" where
  "findOneAndUpdate P f xs = (map_option f (findOne P xs), updateFirst P f xs)"

definition findOneAndDelete :: "('a \<Rightarrow> bool) \<Rightarrow> 'a list \<Rightarrow> 'a option \<times> 'a list" where
  "findOneAndDelete P xs = (findOne P xs, deleteFirst P xs)"

definition countDocuments :: "('a \<Rightarrow> bool) \<Rightarrow> 'a list \<Rightarrow> nat" where
  "countDocuments P xs = length (filter P xs)"

subsection \<open>Request bodies\<close>

text \<open>A property of a request body that may be missing, \<^verbatim>\<open>undefined\<close>, \<^verbatim>\<open>null\<close>
  or a string (\<^verbatim>\<open>assignedTo?: string | null\<close>).\<close>

datatype assignee = Absent | Undefined | Null | Str string

text \<open>JavaScript's truthiness of such a value: only a non-empty string is truthy.\<close>

fun truthy :: "assignee \<Rightarrow> bool" where
  "truthy (Str s) = (s \<noteq> [])"
| "truthy _ = False"

text \<open>\<^verbatim>\<open>value !== undefined\<close> for a property that \<^verbatim>\<open>Object.entries\<close> lists.\<close>

fun isDefined :: "assignee \<Rightarrow> bool" where
  "isDefined Absent = False"
| "isDefined Undefined = False"
| "isDefined Null = True"
| "isDefined (Str s) = True"

text \<open>A date string that \<^verbatim>\<open>dueDateSchema\<close> admits: the empty string, or a string for
  which \<^verbatim>\<open>Date.parse\<close> gives an instant. The store casts the empty string to
  \<^verbatim>\<open>null\<close>.\<close>

datatype dateString = EmptyString | DateString date

fun castDate :: "dateString \<Rightarrow> date option" where
  "castDate EmptyString = None"
| "castDate (DateString d) = Some d"

text \<open>\<^verbatim>\<open>UpdateTaskPayload\<close>: \<open>None\<close> is a property that is missing or \<^verbatim>\<open>undefined\<close>
  (the code tells the two apart for \<^verbatim>\<open>assignedTo\<close> only).\<close>

record UpdateTaskPayload =
  body_title :: "string option"
  body_description :: "string option"
  body_priority :: "string option"
  body_status :: "string option"
  body_assignedTo :: assignee
  body_dueDate :: "dateString option"

text \<open>The body of \<^verbatim>\<open>createTaskService\<close>.\<close>

record CreateTaskPayload =
  new_title :: string
  new_description :: "string option"
  new_priority :: string
  new_status :: string
  new_assignedTo :: assignee
  new_dueDate :: "dateString option"

text \<open>\<^verbatim>\<open>updatePayload: Record<string, unknown>\<close>: the keys the update sets. For the
  assignee, \<open>Some None\<close> is the key set to \<^verbatim>\<open>null\<close>.\<close>

record updatePayload =
  set_status :: "string option"
  set_title :: "string option"
  set_description :: "string option"
  set_priority :: "string option"
  set_dueDate :: "dateString option"
  set_assignedTo :: "oid option option"

definition emptyPayload :: updatePayload where
  "emptyPayload = \<lparr>set_status = None, set_title = None, set_description = None,
     set_priority = None, set_dueDate = None, set_assignedTo = None\<rparr>"

text \<open>\<^verbatim>\<open>Object.keys(updatePayload)\<close>.\<close>

definition payloadKeys :: "updatePayload \<Rightarrow> string list" where
  "payloadKeys u =
     (if set_status u \<noteq> None then [''status''] else []) @
     (if set_title u \<noteq> None then [''title''] else []) @
     (if set_description u \<noteq> None then [''description''] else []) @
     (if set_priority u \<noteq> None then [''priority''] else []) @
     (if set_dueDate u \<noteq> None then [''dueDate''] else []) @
     (if set_assignedTo u \<noteq> None then [''assignedTo''] else [])"

text \<open>What the store does with the update document: each key that is set replaces the
  field, every other field stays.\<close>

definition applyUpdate :: "updatePayload \<Rightarrow> TaskDocument \<Rightarrow> TaskDocument" where
  "applyUpdate u t =
     t\<lparr>status := (case set_status u of None \<Rightarrow> status t | Some v \<Rightarrow> v),
       title := (case set_title u of None \<Rightarrow> title t | Some v \<Rightarrow> v),
       description := (case set_description u of None \<Rightarrow> description t | Some v \<Rightarrow> Some v),
       priority := (case set_priority u of None \<Rightarrow> priority t | Some v \<Rightarrow> v),
       dueDate := (case set_dueDate u of None \<Rightarrow> dueDate t | Some v \<Rightarrow> castDate v),
       assignedTo := (case set_assignedTo u of None \<Rightarrow> assignedTo t | Some v \<Rightarrow> v)\<rparr>"

subsection \<open>updateTaskService\<close>

text \<open>\<^verbatim>\<open>Object.entries(body).filter(([, value]) => value !== undefined)\<close>, as the list of
  the keys left.\<close>

definition providedEntries :: "UpdateTaskPayload \<Rightarrow> string list" where
  "providedEntries body =
     (if body_title body \<noteq> None then [''title''] else []) @
     (if body_description body \<noteq> None then [''description''] else []) @
     (if body_priority body \<noteq> None then [''priority''] else []) @
     (if body_status body \<noteq> None then [''status''] else []) @
     (if isDefined (body_assignedTo body) then [''assignedTo''] else []) @
     (if body_dueDate body \<noteq> None then [''dueDate''] else [])"

definition invalidFields :: "UpdateTaskPayload \<Rightarrow> string list" where
  "invalidFields body = filter (\<lambda>key. key \<noteq> ''status'') (providedEntries body)"

text \<open>Lines 161 to 184: the assignee of an owner's or admin's update.\<close>

definition assigneeUpdate ::
  "store \<Rightarrow> oid \<Rightarrow> UpdateTaskPayload \<Rightarrow> updatePayload \<Rightarrow> appError + updatePayload" where
  "assigneeUpdate db wsId body u =
     (if body_assignedTo body = Absent then Inr u
      else
        let sanitizedAssignee =
              (if body_assignedTo body = Undefined \<or> body_assignedTo body = Str []
               then Undefined else body_assignedTo body)
        in if truthy sanitizedAssignee then
             (case sanitizedAssignee of
                Str a \<Rightarrow>
                  if \<not> exists_doc (\<lambda>m. userId m = a \<and> workspaceId m = wsId) (MemberModel db)
                  then Inl (BadRequestException ''Assigned user is not a member of this workspace'')
                  else Inr (u\<lparr>set_assignedTo := Some (Some a)\<rparr>)
              | _ \<Rightarrow> Inr u)
           else if body_assignedTo body = Null then Inr (u\<lparr>set_assignedTo := Some None\<rparr>)
           else if body_assignedTo body = Str [] then Inr (u\<lparr>set_assignedTo := Some None\<rparr>)
           else Inr u)"

text \<open>Lines 141 to 185: the update document.\<close>

definition buildUpdatePayload ::
  "store \<Rightarrow> oid \<Rightarrow> bool \<Rightarrow> UpdateTaskPayload \<Rightarrow> appError + updatePayload" where
  "buildUpdatePayload db wsId isOwnerOrAdmin body =
     (let u0 = emptyPayload\<lparr>set_status := body_status body\<rparr>
      in if isOwnerOrAdmin then
           assigneeUpdate db wsId body
             (u0\<lparr>set_title := body_title body,
                 set_description := body_description body,
                 set_priority := body_priority body,
                 set_dueDate := body_dueDate body\<rparr>)
         else Inr u0)"

definition updateTaskService ::
  "store \<Rightarrow> oid \<Rightarrow> oid \<Rightarrow> oid \<Rightarrow> oid \<Rightarrow> RoleType \<Rightarrow> UpdateTaskPayload
     \<Rightarrow> (appError + TaskDocument) \<times> store" where
  "updateTaskService db wsId projectId taskId uid userRole body =
     (case findOne (\<lambda>p. project_id p = projectId) (ProjectModel db) of
        None \<Rightarrow>
          (Inl (NotFoundException ''Project not found or does not belong to this workspace''), db)
      | Some project \<Rightarrow>
          if project_workspace project \<noteq> wsId then
            (Inl (NotFoundException ''Project not found or does not belong to this workspace''), db)
          else
            (case findOne (\<lambda>t. task_id t = taskId) (TaskModel db) of
               None \<Rightarrow>
                 (Inl (NotFoundException ''Task not found or does not belong to this project''), db)
             | Some task \<Rightarrow>
                 if task_project task \<noteq> projectId then
                   (Inl (NotFoundException ''Task not found or does not belong to this project''), db)
                 else
                   let isOwnerOrAdmin = (userRole = OWNER \<or> userRole = ADMIN);
                       isTaskAssignedToUser = (assignedTo task = Some uid)
                   in if \<not> isOwnerOrAdmin \<and> \<not> isTaskAssignedToUser then
                        (Inl (UnauthorizedException ''You are not authorized to update this task''), db)
                      else if \<not> isOwnerOrAdmin \<and> length (invalidFields body) > 0 then
                        (Inl (UnauthorizedException ''Members can only update the task status''), db)
                      else
                        (case buildUpdatePayload db wsId isOwnerOrAdmin body of
                           Inl e \<Rightarrow> (Inl e, db)
                         | Inr u \<Rightarrow>
                             if length (payloadKeys u) = 0 then
                               (Inl (BadRequestException ''No updates were provided''), db)
                             else
                               (case findOneAndUpdate (\<lambda>t. task_id t = taskId) (applyUpdate u)
                                       (TaskModel db) of
                                  (None, tasks') \<Rightarrow>
                                    (Inl (BadRequestException ''Failed to update task''),
                                     db\<lparr>TaskModel := tasks'\<rparr>)
                                | (Some updatedTask, tasks') \<Rightarrow>
                                    (Inr updatedTask, db\<lparr>TaskModel := tasks'\<rparr>)))))"

text \<open>The requests that pass the two lookups at the head of \<^verbatim>\<open>updateTaskService\<close>
  (lines 97 to 111): the project is in the workspace and \<open>task\<close> is the task the
  identifier names, in that project.\<close>

definition resolvesTask :: "store \<Rightarrow> oid \<Rightarrow> oid \<Rightarrow> oid \<Rightarrow> TaskDocument \<Rightarrow> bool" where
  "resolvesTask db wsId projectId taskId task =
     ((case findOne (\<lambda>p. project_id p = projectId) (ProjectModel db) of
         None \<Rightarrow> False
       | Some project \<Rightarrow> project_workspace project = wsId) \<and>
      findOne (\<lambda>t. task_id t = taskId) (TaskModel db) = Some task \<and>
      task_project task = projectId)"

subsection \<open>createTaskService\<close>

text \<open>Modelled from the spec: \<^verbatim>\<open>enums/task.enum.ts\<close> is not among the sources; the two
  defaults carry the names the specification gives the values.\<close>

definition TaskPriorityEnum_MEDIUM :: string where
  "TaskPriorityEnum_MEDIUM = ''MEDIUM''"

definition TaskStatusEnum_TODO :: string where
  "TaskStatusEnum_TODO = ''TODO''"

text \<open>The assignee a new document stores: the identifier, or none.\<close>

fun storedAssignee :: "assignee \<Rightarrow> oid option" where
  "storedAssignee (Str a) = Some a"
| "storedAssignee _ = None"

text \<open>An empty string as the assignee passes the membership check, being falsy, and is
  no identifier: the store refuses to save the document.\<close>

definition createTaskService ::
  "store \<Rightarrow> date \<Rightarrow> oid \<Rightarrow> oid \<Rightarrow> oid \<Rightarrow> oid \<Rightarrow> CreateTaskPayload
     \<Rightarrow> (appError + TaskDocument) \<times> store" where
  "createTaskService db now newId wsId projectId uid body =
     (case findOne (\<lambda>p. project_id p = projectId) (ProjectModel db) of
        None \<Rightarrow>
          (Inl (NotFoundException ''Project not found or does not belong to this workspace''), db)
      | Some project \<Rightarrow>
          if project_workspace project \<noteq> wsId then
            (Inl (NotFoundException ''Project not found or does not belong to this workspace''), db)
          else if truthy (new_assignedTo body) \<and>
                  \<not> exists_doc (\<lambda>m. Str (userId m) = new_assignedTo body \<and> workspaceId m = wsId)
                       (MemberModel db)
          then (Inl (Error ''Assigned user is not a member of this workspace.''), db)
          else if new_assignedTo body = Str []
          then (Inl (MongoError ''Task validation failed''), db)
          else
            let task = \<lparr>task_id = newId,
                        title = new_title body,
                        description = new_description body,
                        priority = (if new_priority body = [] then TaskPriorityEnum_MEDIUM
                                    else new_priority body),
                        status = (if new_status body = [] then TaskStatusEnum_TODO
                                  else new_status body),
                        assignedTo = storedAssignee (new_assignedTo body),
                        createdBy = uid,
                        task_workspace = wsId,
                        task_project = projectId,
                        dueDate = (case new_dueDate body of None \<Rightarrow> None
                                   | Some v \<Rightarrow> castDate v),
                        createdAt = now\<rparr>
            in (Inr task, db\<lparr>TaskModel := TaskModel db @ [task]\<rparr>))"

subsection \<open>Reading and deleting a task\<close>

definition verifyTaskBelongsToWorkspace :: "store \<Rightarrow> oid \<Rightarrow> oid \<Rightarrow> appError + TaskDocument" where
  "verifyTaskBelongsToWorkspace db wsId taskId =
     (case findOne (\<lambda>t. task_id t = taskId \<and> task_workspace t = wsId) (TaskModel db) of
        None \<Rightarrow> Inl (NotFoundException ''Task not found or does not belong to this workspace'')
      | Some task \<Rightarrow> Inr task)"

definition getTaskByIdService ::
  "store \<Rightarrow> oid \<Rightarrow> oid \<Rightarrow> oid \<Rightarrow> (appError + TaskDocument) \<times> store" where
  "getTaskByIdService db wsId projectId taskId =
     (case findOne (\<lambda>p. project_id p = projectId) (ProjectModel db) of
        None \<Rightarrow>
          (Inl (NotFoundException ''Project not found or does not belong to this workspace''), db)
      | Some project \<Rightarrow>
          if project_workspace project \<noteq> wsId then
            (Inl (NotFoundException ''Project not found or does not belong to this workspace''), db)
          else
            (case findOne (\<lambda>t. task_id t = taskId \<and> task_workspace t = wsId \<and>
                               task_project t = projectId) (TaskModel db) of
               None \<Rightarrow> (Inl (NotFoundException ''Task not found.''), db)
             | Some task \<Rightarrow> (Inr task, db)))"

definition deleteTaskService :: "store \<Rightarrow> oid \<Rightarrow> oid \<Rightarrow> (appError + unit) \<times> store" where
  "deleteTaskService db wsId taskId =
     (case findOneAndDelete (\<lambda>t. task_id t = taskId \<and> task_workspace t = wsId) (TaskModel db) of
        (None, tasks') \<Rightarrow>
          (Inl (NotFoundException ''Task not found or does not belong to the specified workspace''),
           db\<lparr>TaskModel := tasks'\<rparr>)
      | (Some task, tasks') \<Rightarrow> (Inr (), db\<lparr>TaskModel := tasks'\<rparr>))"

subsection \<open>Clarifications\<close>

text \<open>JavaScript's white space, within ASCII, and \<^verbatim>\<open>String.prototype.trim\<close>, which the
  schema's \<^verbatim>\<open>trim: true\<close> applies to a question and to a response's message.\<close>

definition isWhiteSpace :: "char \<Rightarrow> bool" where
  "isWhiteSpace c = (c \<in> set [CHR 0x09, CHR 0x0A, CHR 0x0B, CHR 0x0C, CHR 0x0D, CHR '' ''])"

definition trim :: "string \<Rightarrow> string" where
  "trim s = rev (dropWhile isWhiteSpace (rev (dropWhile isWhiteSpace s)))"

text \<open>\<^verbatim>\<open>.sort({ createdAt: -1 })\<close>: newest first; documents of one instant keep their
  order.\<close>

definition sortNewestFirst :: "('a \<Rightarrow> date) \<Rightarrow> 'a list \<Rightarrow> 'a list" where
  "sortNewestFirst created xs = sort_key (\<lambda>x. - created x) xs"

definition getTaskClarificationsService ::
  "store \<Rightarrow> oid \<Rightarrow> oid \<Rightarrow> (appError + TaskClarificationDocument list) \<times> store" where
  "getTaskClarificationsService db wsId taskId =
     (case verifyTaskBelongsToWorkspace db wsId taskId of
        Inl e \<Rightarrow> (Inl e, db)
      | Inr task \<Rightarrow>
          (Inr (sortNewestFirst clarification_createdAt
                  (filter (\<lambda>c. clarification_workspace c = wsId \<and> clarification_task c = taskId)
                     (TaskClarificationModel db))), db))"

text \<open>The schema requires a question: \<^verbatim>\<open>create\<close> refuses one that is empty once
  trimmed.\<close>

definition createTaskClarificationService ::
  "store \<Rightarrow> date \<Rightarrow> oid \<Rightarrow> oid \<Rightarrow> oid \<Rightarrow> oid \<Rightarrow> string
     \<Rightarrow> (appError + TaskClarificationDocument) \<times> store" where
  "createTaskClarificationService db now newId wsId taskId uid q =
     (case verifyTaskBelongsToWorkspace db wsId taskId of
        Inl e \<Rightarrow> (Inl e, db)
      | Inr task \<Rightarrow>
          if trim q = [] then (Inl (MongoError ''TaskClarification validation failed''), db)
          else
          let clarification = \<lparr>clarification_id = newId,
                                 clarification_task = taskId,
                                 clarification_workspace = wsId,
                                 question = trim q,
                                 askedBy = uid,
                                 responses = [],
                                 clarification_createdAt = now\<rparr>
          in (Inr clarification,
              db\<lparr>TaskClarificationModel := TaskClarificationModel db @ [clarification]\<rparr>))"

text \<open>\<^verbatim>\<open>$push\<close> of one response onto the end of the array.\<close>

definition pushResponse ::
  "ClarificationResponse \<Rightarrow> TaskClarificationDocument \<Rightarrow> TaskClarificationDocument" where
  "pushResponse r c = c\<lparr>responses := responses c @ [r]\<rparr>"

definition respondToTaskClarificationService ::
  "store \<Rightarrow> date \<Rightarrow> oid \<Rightarrow> oid \<Rightarrow> oid \<Rightarrow> oid \<Rightarrow> string
     \<Rightarrow> (appError + TaskClarificationDocument) \<times> store" where
  "respondToTaskClarificationService db now wsId taskId clarificationId uid msg =
     (case verifyTaskBelongsToWorkspace db wsId taskId of
        Inl e \<Rightarrow> (Inl e, db)
      | Inr task \<Rightarrow>
          (case findOneAndUpdate
                  (\<lambda>c. clarification_id c = clarificationId \<and> clarification_workspace c = wsId \<and>
                       clarification_task c = taskId)
                  (pushResponse \<lparr>message = trim msg, respondedBy = uid, response_createdAt = now\<rparr>)
                  (TaskClarificationModel db) of
             (None, cs') \<Rightarrow>
               (Inl (NotFoundException ''Clarification not found for this task''),
                db\<lparr>TaskClarificationModel := cs'\<rparr>)
           | (Some clarification, cs') \<Rightarrow>
               (Inr clarification, db\<lparr>TaskClarificationModel := cs'\<rparr>)))"

subsection \<open>Listing tasks\<close>

record TaskFilters =
  filter_projectId :: "string option"
  filter_status :: "string list option"
  filter_priority :: "string list option"
  filter_assignedTo :: "string list option"
  filter_keyword :: "string option"
  filter_dueDate :: "dateString option"

record Pagination =
  pageSize :: int
  pageNumber :: int

text \<open>A JavaScript number that is an integer, or the two values a division by zero
  gives. Integers are exact here; a double is exact below \<open>2 ^ 53\<close>.\<close>

datatype js_number = Num int | Infinity | NaN

record PaginationResult = Pagination +
  totalCount :: nat
  totalPages :: js_number
  skip :: int

record TaskList =
  tasks :: "TaskDocument list"
  pagination :: PaginationResult

text \<open>\<^verbatim>\<open>query: Record<string, any>\<close>: the conditions of lines 217 to 245, each present or
  not. \<open>query_status\<close>, \<open>query_priority\<close> and \<open>query_assignedTo\<close> are \<^verbatim>\<open>$in\<close> conditions,
  \<open>query_title\<close> is the \<^verbatim>\<open>$regex\<close> with the option \<^verbatim>\<open>i\<close>.\<close>

record TaskQuery =
  query_workspace :: oid
  query_project :: "oid option"
  query_status :: "string list option"
  query_priority :: "string list option"
  query_assignedTo :: "string list option"
  query_title :: "string option"
  query_dueDate :: "date option"

text \<open>A filter is applied when it is truthy: a string when it is not empty, an array when
  it has an element.\<close>

definition truthyString :: "string option \<Rightarrow> string option" where
  "truthyString v = (case v of None \<Rightarrow> None | Some s \<Rightarrow> if s = [] then None else Some s)"

definition nonEmptyArray :: "string list option \<Rightarrow> string list option" where
  "nonEmptyArray v =
     (case v of None \<Rightarrow> None | Some xs \<Rightarrow> if length xs > 0 then Some xs else None)"

definition buildQuery :: "oid \<Rightarrow> TaskFilters \<Rightarrow> TaskQuery" where
  "buildQuery wsId filters =
     \<lparr>query_workspace = wsId,
      query_project = truthyString (filter_projectId filters),
      query_status = nonEmptyArray (filter_status filters),
      query_priority = nonEmptyArray (filter_priority filters),
      query_assignedTo = nonEmptyArray (filter_assignedTo filters),
      query_title = truthyString (filter_keyword filters),
      query_dueDate = (case filter_dueDate filters of None \<Rightarrow> None
                       | Some v \<Rightarrow> castDate v)\<rparr>"

text \<open>The store's regular expressions are not part of the repository. A listing takes the
  engine as an argument: \<open>regexI p\<close> is \<open>None\<close> when the store rejects the pattern \<open>p\<close>,
  and otherwise the test whether a string has a match of \<open>p\<close>, letter case ignored.\<close>

type_synonym regexEngine = "string \<Rightarrow> (string \<Rightarrow> bool) option"

definition inList :: "string list option \<Rightarrow> string \<Rightarrow> bool" where
  "inList v x = (case v of None \<Rightarrow> True | Some xs \<Rightarrow> x \<in> set xs)"

definition matchesQuery :: "(string \<Rightarrow> bool) \<Rightarrow> TaskQuery \<Rightarrow> TaskDocument \<Rightarrow> bool" where
  "matchesQuery titleMatches q t =
     (task_workspace t = query_workspace q \<and>
      (case query_project q of None \<Rightarrow> True | Some p \<Rightarrow> task_project t = p) \<and>
      inList (query_status q) (status t) \<and>
      inList (query_priority q) (priority t) \<and>
      (case query_assignedTo q of None \<Rightarrow> True
       | Some us \<Rightarrow> (case assignedTo t of None \<Rightarrow> False | Some a \<Rightarrow> a \<in> set us)) \<and>
      titleMatches (title t) \<and>
      (case query_dueDate q of None \<Rightarrow> True | Some d \<Rightarrow> dueDate t = Some d))"

text \<open>\<^verbatim>\<open>.limit(n)\<close>: no limit for zero; the store reads a negative limit as its absolute
  value.\<close>

definition limitDocs :: "int \<Rightarrow> 'a list \<Rightarrow> 'a list" where
  "limitDocs n xs = (if n = 0 then xs else take (nat \<bar>n\<bar>) xs)"

text \<open>\<^verbatim>\<open>Math.ceil(totalCount / pageSize)\<close>.\<close>

definition ceilDiv :: "nat \<Rightarrow> int \<Rightarrow> js_number" where
  "ceilDiv n d =
     (if d = 0 then (if n = 0 then NaN else Infinity)
      else Num \<lceil>real n / real_of_int d\<rceil>)"

definition getAllTasksService ::
  "regexEngine \<Rightarrow> store \<Rightarrow> oid \<Rightarrow> TaskFilters \<Rightarrow> Pagination \<Rightarrow> (appError + TaskList) \<times> store" where
  "getAllTasksService regexI db wsId filters pg =
     (let query = buildQuery wsId filters;
          skip = (pageNumber pg - 1) * pageSize pg
      in (case (case query_title query of None \<Rightarrow> Some (\<lambda>s. True) | Some p \<Rightarrow> regexI p) of
           None \<Rightarrow> (Inl (MongoError ''Regular expression is invalid''), db)
         | Some titleMatches \<Rightarrow>
             if skip < 0 then (Inl (MongoError ''Skip value must be non-negative''), db)
             else
               let found = limitDocs (pageSize pg)
                             (drop (nat skip)
                                (sortNewestFirst createdAt
                                   (filter (matchesQuery titleMatches query) (TaskModel db))));
                   totalCount = countDocuments (matchesQuery titleMatches query) (TaskModel db);
                   totalPages = ceilDiv totalCount (pageSize pg)
               in (Inr \<lparr>tasks = found,
                        pagination = \<lparr>pageSize = pageSize pg, pageNumber = pageNumber pg,
                                       totalCount = totalCount, totalPages = totalPages,
                                       skip = skip\<rparr>\<rparr>, db)))"

subsection \<open>The listing controller\<close>

text \<open>\<^verbatim>\<open>parseInt(string)\<close> without a radix: white space is skipped, then a sign, then
  \<^verbatim>\<open>0x\<close> selects radix 16, then the longest run of digits is read; \<open>None\<close> is
  \<^verbatim>\<open>NaN\<close>.\<close>

definition digitValue :: "nat \<Rightarrow> char \<Rightarrow> nat option" where
  "digitValue radix c =
     (case map_of (zip ''0123456789abcdef'' [0, 1, 2, 3, 4, 5, 6, 7, 8, 9, 10, 11, 12, 13, 14, 15] @
                   zip ''ABCDEF'' [10, 11, 12, 13, 14, 15]) c of
        None \<Rightarrow> None
      | Some d \<Rightarrow> if d < radix then Some d else None)"

definition digitsValue :: "nat \<Rightarrow> string \<Rightarrow> nat" where
  "digitsValue radix ds =
     foldl (\<lambda>acc c. case digitValue radix c of None \<Rightarrow> acc | Some d \<Rightarrow> acc * radix + d) 0 ds"

definition parseInt :: "string \<Rightarrow> int option" where
  "parseInt input =
     (let s = dropWhile isWhiteSpace input;
          negative = (s \<noteq> [] \<and> hd s = CHR ''-'');
          s = (if s \<noteq> [] \<and> (hd s = CHR ''-'' \<or> hd s = CHR ''+'') then tl s else s);
          hex = (take 2 s = ''0x'' \<or> take 2 s = ''0X'');
          radix = (if hex then 16 else 10);
          s = (if hex then drop 2 s else s);
          ds = takeWhile (\<lambda>c. digitValue radix c \<noteq> None) s
      in if ds = [] then None
         else Some ((if negative then - 1 else 1) * int (digitsValue radix ds)))"

text \<open>\<^verbatim>\<open>parseInt(v as string) || d\<close> for a query parameter that may be missing:
  \<^verbatim>\<open>NaN\<close> and zero are falsy.\<close>

definition parseIntOr :: "string option \<Rightarrow> int \<Rightarrow> int" where
  "parseIntOr v d =
     (case (case v of None \<Rightarrow> None | Some s \<Rightarrow> parseInt s) of
        None \<Rightarrow> d
      | Some n \<Rightarrow> if n = 0 then d else n)"

text \<open>\<^verbatim>\<open>s.split(",")\<close>.\<close>

fun split :: "char \<Rightarrow> string \<Rightarrow> string list" where
  "split sep [] = [[]]"
| "split sep (c # cs) =
     (if c = sep then [] # split sep cs
      else (case split sep cs of [] \<Rightarrow> [[c]] | w # ws \<Rightarrow> (c # w) # ws))"

text \<open>\<^verbatim>\<open>req.query.x ? (req.query.x as string)?.split(",") : undefined\<close>.\<close>

definition splitParam :: "string option \<Rightarrow> string list option" where
  "splitParam v = map_option (split CHR '','') (truthyString v)"

record ListRequest =
  param_workspaceId :: string
  req_user :: oid
  req_projectId :: "string option"
  req_status :: "string option"
  req_priority :: "string option"
  req_assignedTo :: "string option"
  req_keyword :: "string option"
  req_dueDate :: "dateString option"
  req_pageSize :: "string option"
  req_pageNumber :: "string option"

text \<open>Modelled from the spec: \<^verbatim>\<open>enums/role.enum.ts\<close> is not among the sources; the
  permissions are those the specification names. Neither are
  \<^verbatim>\<open>validation/workspace.validation.ts\<close>, \<^verbatim>\<open>services/member.service.ts\<close> and
  \<^verbatim>\<open>utils/roleGuard.ts\<close>: the schema, the role lookup and the guard are arguments of the
  controller.\<close>

datatype Permissions =
  CREATE_TASK | EDIT_TASK | DELETE_TASK | VIEW_ONLY | MANAGE_WORKSPACE_SETTINGS

record collaborators =
  workspaceIdSchema :: "string \<Rightarrow> appError + oid"
  getMemberRoleInWorkspace :: "oid \<Rightarrow> oid \<Rightarrow> appError + RoleType"
  roleGuard :: "RoleType \<Rightarrow> Permissions list \<Rightarrow> appError option"

definition getAllTasksController ::
  "collaborators \<Rightarrow> regexEngine \<Rightarrow> store \<Rightarrow> ListRequest \<Rightarrow> (appError + TaskList) \<times> store" where
  "getAllTasksController env regexI db req =
     (case workspaceIdSchema env (param_workspaceId req) of
        Inl e \<Rightarrow> (Inl e, db)
      | Inr wsId \<Rightarrow>
          let filters = \<lparr>filter_projectId = req_projectId req,
                         filter_status = splitParam (req_status req),
                         filter_priority = splitParam (req_priority req),
                         filter_assignedTo = splitParam (req_assignedTo req),
                         filter_keyword = req_keyword req,
                         filter_dueDate = req_dueDate req\<rparr>;
              pg = \<lparr>pageSize = parseIntOr (req_pageSize req) 10,
                    pageNumber = parseIntOr (req_pageNumber req) 1\<rparr>
          in (case getMemberRoleInWorkspace env (req_user req) wsId of
                Inl e \<Rightarrow> (Inl e, db)
              | Inr role \<Rightarrow>
                  (case roleGuard env role [VIEW_ONLY] of
                     Some e \<Rightarrow> (Inl e, db)
                   | None \<Rightarrow> getAllTasksService regexI db wsId filters pg)))"

subsection \<open>A fragment of the store's regular expressions\<close>

text \<open>Patterns made of ordinary characters and the dot: an ordinary character matches
  itself, letter case ignored; the dot matches any character but the line feed. A pattern
  with any other metacharacter is outside the fragment (\<open>None\<close>).\<close>

datatype atom = Lit char | AnyChar

definition metacharacters :: "char list" where
  "metacharacters =
     [CHR 0x5C, CHR ''^'', CHR ''$'', CHR ''.'', CHR ''|'', CHR ''?'', CHR ''*'', CHR ''+'',
      CHR ''('', CHR '')'', CHR ''['', CHR '']'', CHR ''{'', CHR ''}'']"

definition toLower :: "char \<Rightarrow> char" where
  "toLower c =
     (case map_of (zip ''ABCDEFGHIJKLMNOPQRSTUVWXYZ'' ''abcdefghijklmnopqrstuvwxyz'') c of
        None \<Rightarrow> c
      | Some l \<Rightarrow> l)"

fun parsePattern :: "string \<Rightarrow> atom list option" where
  "parsePattern [] = Some []"
| "parsePattern (c # cs) =
     (if c = CHR ''.'' then map_option ((#) AnyChar) (parsePattern cs)
      else if c \<in> set metacharacters then None
      else map_option ((#) (Lit c)) (parsePattern cs))"

fun matchAtom :: "atom \<Rightarrow> char \<Rightarrow> bool" where
  "matchAtom (Lit c) d = (toLower c = toLower d)"
| "matchAtom AnyChar d = (d \<noteq> CHR 0x0A)"

fun matchHere :: "atom list \<Rightarrow> string \<Rightarrow> bool" where
  "matchHere [] s = True"
| "matchHere (a # as) [] = False"
| "matchHere (a # as) (c # cs) = (matchAtom a c \<and> matchHere as cs)"

fun search :: "atom list \<Rightarrow> string \<Rightarrow> bool" where
  "search as [] = matchHere as []"
| "search as (c # cs) = (matchHere as (c # cs) \<or> search as cs)"

definition fragmentRegexI :: regexEngine where
  "fragmentRegexI p = map_option search (parsePattern p)"

text \<open>The specification's words for the keyword filter: the title contains the keyword
  as a substring, letter case ignored.\<close>

definition containsIgnoringCase :: "string \<Rightarrow> string \<Rightarrow> bool" where
  "containsIgnoringCase keyword s = sublist (map toLower keyword) (map toLower s)"

subsection \<open>A small store for concrete runs\<close>

text \<open>Two workspaces: \<open>w1\<close> with the project \<open>p1\<close> and the members alice and bob,
  \<open>w2\<close> with the project \<open>p2\<close> and the member carol.\<close>

definition task1 :: TaskDocument where
  "task1 = \<lparr>task_id = ''t1'', title = ''Fix login'', description = None, priority = ''HIGH'',
     status = ''TODO'', assignedTo = Some ''bob'', createdBy = ''alice'', task_workspace = ''w1'',
     task_project = ''p1'', dueDate = None, createdAt = 100\<rparr>"

definition task2 :: TaskDocument where
  "task2 = \<lparr>task_id = ''t2'', title = ''abc'', description = Some ''d'', priority = ''LOW'',
     status = ''DONE'', assignedTo = None, createdBy = ''alice'', task_workspace = ''w1'',
     task_project = ''p1'', dueDate = Some 5, createdAt = 300\<rparr>"

definition task3 :: TaskDocument where
  "task3 = \<lparr>task_id = ''t3'', title = ''ABC'', description = None, priority = ''LOW'',
     status = ''TODO'', assignedTo = Some ''carol'', createdBy = ''carol'', task_workspace = ''w2'',
     task_project = ''p2'', dueDate = None, createdAt = 200\<rparr>"

definition clar1 :: TaskClarificationDocument where
  "clar1 = \<lparr>clarification_id = ''c1'', clarification_task = ''t1'',
     clarification_workspace = ''w1'', question = ''Which page?'', askedBy = ''bob'',
     responses = [\<lparr>message = ''The first'', respondedBy = ''alice'', response_createdAt = 150\<rparr>],
     clarification_createdAt = 120\<rparr>"

definition db0 :: store where
  "db0 = \<lparr>ProjectModel = [\<lparr>project_id = ''p1'', project_workspace = ''w1''\<rparr>,
                           \<lparr>project_id = ''p2'', project_workspace = ''w2''\<rparr>],
          MemberModel = [\<lparr>userId = ''alice'', workspaceId = ''w1''\<rparr>,
                         \<lparr>userId = ''bob'', workspaceId = ''w1''\<rparr>,
                         \<lparr>userId = ''carol'', workspaceId = ''w2''\<rparr>],
          TaskModel = [task1, task2, task3],
          TaskClarificationModel = [clar1]\<rparr>"

definition noUpdate :: UpdateTaskPayload where
  "noUpdate = \<lparr>body_title = None, body_description = None, body_priority = None,
     body_status = None, body_assignedTo = Absent, body_dueDate = None\<rparr>"

definition noFilters :: TaskFilters where
  "noFilters = \<lparr>filter_projectId = None, filter_status = None, filter_priority = None,
     filter_assignedTo = None, filter_keyword = None, filter_dueDate = None\<rparr>"

subsection \<open>The data model's invariant, and runs of requests\<close>

text \<open>The specification's invariant \<^verbatim>\<open>task.project.workspace == task.workspace\<close>: the
  project a task names, when the store has it, is in the task's workspace.\<close>

definition tasksFollowProjects :: "store \<Rightarrow> bool" where
  "tasksFollowProjects db =
     list_all
       (\<lambda>t. case findOne (\<lambda>p. project_id p = task_project t) (ProjectModel db) of
              None \<Rightarrow> True
            | Some p \<Rightarrow> project_workspace p = task_workspace t)
       (TaskModel db)"

text \<open>The calls of the task service, with their arguments, and the store each leaves.\<close>

datatype request =
    CreateTask date oid oid oid oid CreateTaskPayload
  | UpdateTask oid oid oid oid RoleType UpdateTaskPayload
  | GetAllTasks oid TaskFilters Pagination
  | GetTaskById oid oid oid
  | GetTaskClarifications oid oid
  | CreateTaskClarification date oid oid oid oid string
  | RespondToTaskClarification date oid oid oid oid string
  | DeleteTask oid oid

fun perform :: "regexEngine \<Rightarrow> store \<Rightarrow> request \<Rightarrow> store" where
  "perform regexI db (CreateTask now newId wsId projectId uid body) =
     snd (createTaskService db now newId wsId projectId uid body)"
| "perform regexI db (UpdateTask wsId projectId taskId uid userRole body) =
     snd (updateTaskService db wsId projectId taskId uid userRole body)"
| "perform regexI db (GetAllTasks wsId filters pg) =
     snd (getAllTasksService regexI db wsId filters pg)"
| "perform regexI db (GetTaskById wsId projectId taskId) =
     snd (getTaskByIdService db wsId projectId taskId)"
| "perform regexI db (GetTaskClarifications wsId taskId) =
     snd (getTaskClarificationsService db wsId taskId)"
| "perform regexI db (CreateTaskClarification now newId wsId taskId uid q) =
     snd (createTaskClarificationService db now newId wsId taskId uid q)"
| "perform regexI db (RespondToTaskClarification now wsId taskId clarificationId uid msg) =
     snd (respondToTaskClarificationService db now wsId taskId clarificationId uid msg)"
| "perform regexI db (DeleteTask wsId taskId) =
     snd (deleteTaskService db wsId taskId)"

text \<open>Every clarification of the first store is still in its place in the second, under
  its identifier, and its responses of then are the first responses of now.\<close>

definition responsesKept :: "store \<Rightarrow> store \<Rightarrow> bool" where
  "responsesKept db db' =
     (length (TaskClarificationModel db) \<le> length (TaskClarificationModel db') \<and>
      list_all2
        (\<lambda>c c'. clarification_id c' = clarification_id c \<and> prefix (responses c) (responses c'))
        (TaskClarificationModel db)
        (take (length (TaskClarificationModel db)) (TaskClarificationModel db')))"

text \<open>A query parameter that is missing or for which \<^verbatim>\<open>parseInt\<close> gives \<^verbatim>\<open>NaN\<close>.\<close>

definition unparsable :: "string option \<Rightarrow> bool" where
  "unparsable v = (case v of None \<Rightarrow> True | Some s \<Rightarrow> parseInt s = None)"

text \<open>Collaborators that let every caller in, for concrete runs of the controller.\<close>

definition openDoors :: collaborators where
  "openDoors = \<lparr>workspaceIdSchema = (\<lambda>s. Inr s),
                 getMemberRoleInWorkspace = (\<lambda>u w. Inr MEMBER),
                 roleGuard = (\<lambda>r ps. None)\<rparr>"

definition plainRequest :: ListRequest where
  "plainRequest = \<lparr>param_workspaceId = ''w1'', req_user = ''bob'', req_projectId = None,
     req_status = None, req_priority = None, req_assignedTo = None, req_keyword = None,
     req_dueDate = None, req_pageSize = None, req_pageNumber = None\<rparr>"

section \<open>Properties\<close>

subsection \<open>The store's operations\<close>

lemma findOne_updateFirst:
  "findOne P xs = Some x \<Longrightarrow>
     \<exists>pre post. xs = pre @ x # post \<and> updateFirst P f xs = pre @ f x # post"
proof (induction xs)
  case Nil
  then show ?case by (simp add: findOne_def)
next
  case (Cons a xs)
  show ?case
  proof (cases "P a")
    case True
    with Cons.prems have "a = x" by (simp add: findOne_def)
    with True show ?thesis by (intro exI[of _ "[]"] exI[of _ xs]) simp
  next
    case False
    with Cons.prems have "findOne P xs = Some x" by (simp add: findOne_def)
    from Cons.IH[OF this] obtain pre post where
      "xs = pre @ x # post" "updateFirst P f xs = pre @ f x # post"
      by blast
    with False show ?thesis
      by (intro exI[of _ "a # pre"] exI[of _ post]) simp
  qed
qed

lemma findOne_None_updateFirst: "findOne P xs = None \<Longrightarrow> updateFirst P f xs = xs"
  by (induction xs) (auto simp: findOne_def split: if_splits)

lemma findOne_None_deleteFirst: "findOne P xs = None \<Longrightarrow> deleteFirst P xs = xs"
  by (induction xs) (auto simp: findOne_def split: if_splits)

lemma findOne_None_iff: "findOne P xs = None \<longleftrightarrow> (\<forall>x \<in> set xs. \<not> P x)"
  by (auto simp add: findOne_def find_None_iff)

lemma findOne_Some_holds: "findOne P xs = Some x \<Longrightarrow> P x \<and> x \<in> set xs"
  by (auto simp: findOne_def find_Some_iff)

subsection \<open>Updating a task\<close>

lemma invalidFields_empty_iff:
  "invalidFields body = [] \<longleftrightarrow>
     body_title body = None \<and> body_description body = None \<and> body_priority body = None \<and>
     body_dueDate body = None \<and> \<not> isDefined (body_assignedTo body)"
  by (auto simp: invalidFields_def providedEntries_def)

text \<open>Past the two lookups, the service is the rest of its body.\<close>

lemma updateTaskService_resolved:
  assumes "resolvesTask db wsId projectId taskId task"
  shows "updateTaskService db wsId projectId taskId uid userRole body =
     (let isOwnerOrAdmin = (userRole = OWNER \<or> userRole = ADMIN)
      in if \<not> isOwnerOrAdmin \<and> assignedTo task \<noteq> Some uid then
           (Inl (UnauthorizedException ''You are not authorized to update this task''), db)
         else if \<not> isOwnerOrAdmin \<and> invalidFields body \<noteq> [] then
           (Inl (UnauthorizedException ''Members can only update the task status''), db)
         else
           (case buildUpdatePayload db wsId isOwnerOrAdmin body of
              Inl e \<Rightarrow> (Inl e, db)
            | Inr u \<Rightarrow>
                if payloadKeys u = [] then
                  (Inl (BadRequestException ''No updates were provided''), db)
                else (Inr (applyUpdate u task),
                      db\<lparr>TaskModel := updateFirst (\<lambda>t. task_id t = taskId) (applyUpdate u)
                                         (TaskModel db)\<rparr>)))"
  using assms
  by (auto simp add: updateTaskService_def resolvesTask_def findOneAndUpdate_def Let_def
        split: option.splits sum.splits)

text \<open>
  \<^bold>\<open>C1.\<close> A caller who is neither owner nor admin and is not the assignee of the task
  that the request resolves to is answered with the unauthorized error, whatever the body
  holds, and the store is the one before the call.
\<close>

theorem updateTask_stranger_unauthorized:
  assumes "resolvesTask db wsId projectId taskId task"
      and "userRole \<noteq> OWNER" and "userRole \<noteq> ADMIN"
      and "assignedTo task \<noteq> Some uid"
  shows "updateTaskService db wsId projectId taskId uid userRole body =
           (Inl (UnauthorizedException ''You are not authorized to update this task''), db)"
  using assms(2-4) by (simp add: updateTaskService_resolved[OF assms(1)])

theorem updateTask_stranger_unauthorized_witness:
  "updateTaskService db0 ''w1'' ''p1'' ''t1'' ''alice'' MEMBER (noUpdate\<lparr>body_status := Some ''DONE''\<rparr>) =
     (Inl (UnauthorizedException ''You are not authorized to update this task''), db0)"
  using updateTask_stranger_unauthorized
          [of db0 "''w1''" "''p1''" "''t1''" task1 MEMBER "''alice''"
              "noUpdate\<lparr>body_status := Some ''DONE''\<rparr>"]
  by (simp add: resolvesTask_def findOne_def db0_def task1_def)

text \<open>
  \<^bold>\<open>C2.\<close> The assignee of the task, being neither owner nor admin: a body that defines any
  field other than the status is answered with the unauthorized error and the store stays
  as it was; a body that defines the status alone succeeds, the task the request names
  gets the new status and keeps every other field, and every other document stays.
\<close>

theorem updateTask_assignee_status_only:
  assumes "resolvesTask db wsId projectId taskId task"
      and "userRole \<noteq> OWNER" and "userRole \<noteq> ADMIN"
      and "assignedTo task = Some uid"
  shows "(body_title body \<noteq> None \<or> body_description body \<noteq> None \<or> body_priority body \<noteq> None \<or>
          body_dueDate body \<noteq> None \<or> isDefined (body_assignedTo body)
          \<longrightarrow> updateTaskService db wsId projectId taskId uid userRole body =
                (Inl (UnauthorizedException ''Members can only update the task status''), db)) \<and>
         (body_title body = None \<and> body_description body = None \<and> body_priority body = None \<and>
          body_dueDate body = None \<and> \<not> isDefined (body_assignedTo body) \<and>
          body_status body = Some st
          \<longrightarrow> (\<exists>pre post. TaskModel db = pre @ task # post \<and>
                updateTaskService db wsId projectId taskId uid userRole body =
                  (Inr (task\<lparr>status := st\<rparr>),
                   db\<lparr>TaskModel := pre @ task\<lparr>status := st\<rparr> # post\<rparr>)))"
proof (intro conjI impI)
  assume "body_title body \<noteq> None \<or> body_description body \<noteq> None \<or> body_priority body \<noteq> None \<or>
          body_dueDate body \<noteq> None \<or> isDefined (body_assignedTo body)"
  then have "invalidFields body \<noteq> []"
    by (simp add: invalidFields_empty_iff)
  with assms(2-4) show "updateTaskService db wsId projectId taskId uid userRole body =
      (Inl (UnauthorizedException ''Members can only update the task status''), db)"
    by (simp add: updateTaskService_resolved[OF assms(1)])
next
  assume only: "body_title body = None \<and> body_description body = None \<and> body_priority body = None \<and>
          body_dueDate body = None \<and> \<not> isDefined (body_assignedTo body) \<and>
          body_status body = Some st"
  then have inv: "invalidFields body = []"
    by (simp add: invalidFields_empty_iff)
  let ?u = "emptyPayload\<lparr>set_status := Some st\<rparr>"
  have app: "applyUpdate ?u = (\<lambda>t. t\<lparr>status := st\<rparr>)"
    by (rule ext) (simp add: applyUpdate_def emptyPayload_def)
  have keys: "payloadKeys ?u \<noteq> []"
    by (simp add: payloadKeys_def emptyPayload_def)
  have build: "buildUpdatePayload db wsId False body = Inr ?u"
    using only by (simp add: buildUpdatePayload_def)
  from assms(1) have found: "findOne (\<lambda>t. task_id t = taskId) (TaskModel db) = Some task"
    by (simp add: resolvesTask_def)
  from findOne_updateFirst[OF found, of "\<lambda>t. t\<lparr>status := st\<rparr>"] obtain pre post where
    pp: "TaskModel db = pre @ task # post"
        "updateFirst (\<lambda>t. task_id t = taskId) (\<lambda>t. t\<lparr>status := st\<rparr>) (TaskModel db) =
           pre @ task\<lparr>status := st\<rparr> # post"
    by blast
  have "updateTaskService db wsId projectId taskId uid userRole body =
          (Inr (task\<lparr>status := st\<rparr>), db\<lparr>TaskModel := pre @ task\<lparr>status := st\<rparr> # post\<rparr>)"
    using assms(2-4) inv keys build pp(2)
    by (simp add: updateTaskService_resolved[OF assms(1)] app)
  with pp(1) show "\<exists>pre post. TaskModel db = pre @ task # post \<and>
       updateTaskService db wsId projectId taskId uid userRole body =
         (Inr (task\<lparr>status := st\<rparr>), db\<lparr>TaskModel := pre @ task\<lparr>status := st\<rparr> # post\<rparr>)"
    by blast
qed

theorem updateTask_assignee_status_only_witness:
  "updateTaskService db0 ''w1'' ''p1'' ''t1'' ''bob'' MEMBER (noUpdate\<lparr>body_title := Some ''x''\<rparr>) =
     (Inl (UnauthorizedException ''Members can only update the task status''), db0) \<and>
   updateTaskService db0 ''w1'' ''p1'' ''t1'' ''bob'' MEMBER (noUpdate\<lparr>body_status := Some ''DONE''\<rparr>) =
     (Inr (task1\<lparr>status := ''DONE''\<rparr>), db0\<lparr>TaskModel := [task1\<lparr>status := ''DONE''\<rparr>, task2, task3]\<rparr>)"
proof -
  have res: "resolvesTask db0 ''w1'' ''p1'' ''t1'' task1"
    by (simp add: resolvesTask_def findOne_def db0_def task1_def)
  have role: "MEMBER \<noteq> OWNER" "MEMBER \<noteq> ADMIN" and asg: "assignedTo task1 = Some ''bob''"
    by (simp_all add: task1_def)
  have a: "updateTaskService db0 ''w1'' ''p1'' ''t1'' ''bob'' MEMBER (noUpdate\<lparr>body_title := Some ''x''\<rparr>) =
     (Inl (UnauthorizedException ''Members can only update the task status''), db0)"
    using updateTask_assignee_status_only
            [OF res role asg, of "noUpdate\<lparr>body_title := Some ''x''\<rparr>" "''DONE''"]
    by (simp add: noUpdate_def)
  from updateTask_assignee_status_only
         [OF res role asg, of "noUpdate\<lparr>body_status := Some ''DONE''\<rparr>" "''DONE''"]
  obtain pre post where
    pp: "TaskModel db0 = pre @ task1 # post"
        "updateTaskService db0 ''w1'' ''p1'' ''t1'' ''bob'' MEMBER (noUpdate\<lparr>body_status := Some ''DONE''\<rparr>) =
           (Inr (task1\<lparr>status := ''DONE''\<rparr>), db0\<lparr>TaskModel := pre @ task1\<lparr>status := ''DONE''\<rparr> # post\<rparr>)"
    by (auto simp add: noUpdate_def)
  have "task1 \<noteq> task2" "task1 \<noteq> task3"
    by (simp_all add: task1_def task2_def task3_def)
  with pp(1) have "pre = []" "post = [task2, task3]"
    by (auto simp add: db0_def Cons_eq_append_conv)
  with a pp(2) show ?thesis by simp
qed

text \<open>
  \<^bold>\<open>C4\<close>, as the code has it. A body in which no recognized field is defined, sent by an
  owner, an admin or the assignee, is answered with the bad request error and the store
  stays as it was. A body without a status in which a caller who is neither owner nor
  admin defines some other field is answered with the unauthorized error (lines 129 to
  139), not with a bad request.
\<close>

theorem updateTask_no_fields_bad_request:
  assumes "resolvesTask db wsId projectId taskId task"
      and "userRole = OWNER \<or> userRole = ADMIN \<or> assignedTo task = Some uid"
      and "body_status body = None"
  shows "(body_title body = None \<and> body_description body = None \<and> body_priority body = None \<and>
          body_dueDate body = None \<and> \<not> isDefined (body_assignedTo body)
          \<longrightarrow> updateTaskService db wsId projectId taskId uid userRole body =
                (Inl (BadRequestException ''No updates were provided''), db)) \<and>
         (userRole \<noteq> OWNER \<and> userRole \<noteq> ADMIN \<and>
          (body_title body \<noteq> None \<or> body_description body \<noteq> None \<or> body_priority body \<noteq> None \<or>
           body_dueDate body \<noteq> None \<or> isDefined (body_assignedTo body))
          \<longrightarrow> updateTaskService db wsId projectId taskId uid userRole body =
                (Inl (UnauthorizedException ''Members can only update the task status''), db))"
proof (intro conjI impI)
  assume none: "body_title body = None \<and> body_description body = None \<and> body_priority body = None \<and>
          body_dueDate body = None \<and> \<not> isDefined (body_assignedTo body)"
  then have inv: "invalidFields body = []"
    by (simp add: invalidFields_empty_iff)
  from none have "assigneeUpdate db wsId body u = Inr u" for u
    by (cases "body_assignedTo body") (simp_all add: assigneeUpdate_def)
  with none assms(3) have build: "buildUpdatePayload db wsId b body = Inr emptyPayload" for b
    by (simp add: buildUpdatePayload_def emptyPayload_def Let_def)
  have keys: "payloadKeys emptyPayload = []"
    by (simp add: payloadKeys_def emptyPayload_def)
  show "updateTaskService db wsId projectId taskId uid userRole body =
          (Inl (BadRequestException ''No updates were provided''), db)"
    using assms(2) inv build keys
    by (auto simp add: updateTaskService_resolved[OF assms(1)])
next
  assume other: "userRole \<noteq> OWNER \<and> userRole \<noteq> ADMIN \<and>
          (body_title body \<noteq> None \<or> body_description body \<noteq> None \<or> body_priority body \<noteq> None \<or>
           body_dueDate body \<noteq> None \<or> isDefined (body_assignedTo body))"
  then have "invalidFields body \<noteq> []"
    by (simp add: invalidFields_empty_iff)
  with other assms(2) show "updateTaskService db wsId projectId taskId uid userRole body =
          (Inl (UnauthorizedException ''Members can only update the task status''), db)"
    by (auto simp add: updateTaskService_resolved[OF assms(1)])
qed

theorem updateTask_no_fields_bad_request_witness:
  "updateTaskService db0 ''w1'' ''p1'' ''t1'' ''bob'' MEMBER noUpdate =
     (Inl (BadRequestException ''No updates were provided''), db0) \<and>
   updateTaskService db0 ''w1'' ''p1'' ''t1'' ''alice'' OWNER (noUpdate\<lparr>body_assignedTo := Undefined\<rparr>) =
     (Inl (BadRequestException ''No updates were provided''), db0) \<and>
   updateTaskService db0 ''w1'' ''p1'' ''t1'' ''bob'' MEMBER (noUpdate\<lparr>body_dueDate := Some EmptyString\<rparr>) =
     (Inl (UnauthorizedException ''Members can only update the task status''), db0)"
proof -
  have res: "resolvesTask db0 ''w1'' ''p1'' ''t1'' task1"
    by (simp add: resolvesTask_def findOne_def db0_def task1_def)
  have asg: "assignedTo task1 = Some ''bob''"
    by (simp add: task1_def)
  show ?thesis
    using updateTask_no_fields_bad_request [OF res, of MEMBER "''bob''" noUpdate]
          updateTask_no_fields_bad_request
            [OF res, of OWNER "''alice''" "noUpdate\<lparr>body_assignedTo := Undefined\<rparr>"]
          updateTask_no_fields_bad_request
            [OF res, of MEMBER "''bob''" "noUpdate\<lparr>body_dueDate := Some EmptyString\<rparr>"]
    by (simp add: asg noUpdate_def)
qed

text \<open>The claim as it was stated fails for the assignee who sends a title alone: the
  update document is empty, and the answer is the unauthorized error.\<close>

theorem updateTask_role_filtered_fields_counterexample:
  "assignedTo task1 = Some ''bob'' \<and>
   buildUpdatePayload db0 ''w1'' False (noUpdate\<lparr>body_title := Some ''x''\<rparr>) = Inr emptyPayload \<and>
   payloadKeys emptyPayload = [] \<and>
   updateTaskService db0 ''w1'' ''p1'' ''t1'' ''bob'' MEMBER (noUpdate\<lparr>body_title := Some ''x''\<rparr>) =
     (Inl (UnauthorizedException ''Members can only update the task status''), db0) \<and>
   UnauthorizedException ''Members can only update the task status'' \<noteq>
     BadRequestException ''No updates were provided''"
proof -
  have res: "resolvesTask db0 ''w1'' ''p1'' ''t1'' task1"
    by (simp add: resolvesTask_def findOne_def db0_def task1_def)
  show ?thesis
    by (simp add: updateTaskService_resolved[OF res] invalidFields_empty_iff)
       (simp add: task1_def noUpdate_def buildUpdatePayload_def emptyPayload_def payloadKeys_def)
qed

text \<open>
  \<^bold>\<open>C10.\<close> An owner's or admin's body whose \<^verbatim>\<open>assignedTo\<close> is \<^verbatim>\<open>null\<close> or the empty
  string: the update succeeds (so it is no empty update), the task the request names gets
  no assignee next to the other fields the body defines, and the answer is the same
  whatever the member collection holds, so no membership is looked up.
\<close>

theorem updateTask_clear_assignee:
  assumes "resolvesTask db wsId projectId taskId task"
      and "userRole = OWNER \<or> userRole = ADMIN"
      and "body_assignedTo body = Null \<or> body_assignedTo body = Str []"
  shows "\<exists>pre post updated.
           TaskModel db = pre @ task # post \<and>
           updated = task\<lparr>status := (case body_status body of None \<Rightarrow> status task | Some v \<Rightarrow> v),
                          title := (case body_title body of None \<Rightarrow> title task | Some v \<Rightarrow> v),
                          description := (case body_description body of None \<Rightarrow> description task
                                          | Some v \<Rightarrow> Some v),
                          priority := (case body_priority body of None \<Rightarrow> priority task | Some v \<Rightarrow> v),
                          dueDate := (case body_dueDate body of None \<Rightarrow> dueDate task
                                      | Some v \<Rightarrow> castDate v),
                          assignedTo := None\<rparr> \<and>
           (\<forall>members.
              updateTaskService (db\<lparr>MemberModel := members\<rparr>) wsId projectId taskId uid userRole body =
                (Inr updated, db\<lparr>MemberModel := members, TaskModel := pre @ updated # post\<rparr>))"
proof -
  let ?u = "\<lparr>set_status = body_status body, set_title = body_title body,
             set_description = body_description body, set_priority = body_priority body,
             set_dueDate = body_dueDate body, set_assignedTo = Some None\<rparr>"
  from assms(1) have found: "findOne (\<lambda>t. task_id t = taskId) (TaskModel db) = Some task"
    by (simp add: resolvesTask_def)
  from findOne_updateFirst[OF found, of "applyUpdate ?u"] obtain pre post where
    pp: "TaskModel db = pre @ task # post"
        "updateFirst (\<lambda>t. task_id t = taskId) (applyUpdate ?u) (TaskModel db) =
           pre @ applyUpdate ?u task # post"
    by blast
  have keys: "payloadKeys ?u \<noteq> []"
    by (simp add: payloadKeys_def)
  have run: "updateTaskService (db\<lparr>MemberModel := members\<rparr>) wsId projectId taskId uid userRole body =
               (Inr (applyUpdate ?u task),
                db\<lparr>MemberModel := members, TaskModel := pre @ applyUpdate ?u task # post\<rparr>)"
    for members
  proof -
    have res: "resolvesTask (db\<lparr>MemberModel := members\<rparr>) wsId projectId taskId task"
      using assms(1) by (simp add: resolvesTask_def)
    have build: "buildUpdatePayload (db\<lparr>MemberModel := members\<rparr>) wsId True body = Inr ?u"
      using assms(3)
      by (auto simp add: buildUpdatePayload_def assigneeUpdate_def emptyPayload_def)
    show ?thesis
      using assms(2) build keys pp(2)
      by (simp add: updateTaskService_resolved[OF res])
  qed
  have "applyUpdate ?u task =
          task\<lparr>status := (case body_status body of None \<Rightarrow> status task | Some v \<Rightarrow> v),
               title := (case body_title body of None \<Rightarrow> title task | Some v \<Rightarrow> v),
               description := (case body_description body of None \<Rightarrow> description task
                               | Some v \<Rightarrow> Some v),
               priority := (case body_priority body of None \<Rightarrow> priority task | Some v \<Rightarrow> v),
               dueDate := (case body_dueDate body of None \<Rightarrow> dueDate task | Some v \<Rightarrow> castDate v),
               assignedTo := None\<rparr>"
    by (simp add: applyUpdate_def)
  with pp(1) run show ?thesis by metis
qed

theorem updateTask_clear_assignee_witness:
  "updateTaskService db0 ''w1'' ''p1'' ''t1'' ''alice'' ADMIN (noUpdate\<lparr>body_assignedTo := Null\<rparr>) =
     (Inr (task1\<lparr>assignedTo := None\<rparr>),
      db0\<lparr>TaskModel := [task1\<lparr>assignedTo := None\<rparr>, task2, task3]\<rparr>) \<and>
   updateTaskService (db0\<lparr>MemberModel := []\<rparr>) ''w1'' ''p1'' ''t1'' ''alice'' OWNER
       (noUpdate\<lparr>body_assignedTo := Str [], body_title := Some ''Login''\<rparr>) =
     (Inr (task1\<lparr>title := ''Login'', assignedTo := None\<rparr>),
      db0\<lparr>MemberModel := [],
          TaskModel := [task1\<lparr>title := ''Login'', assignedTo := None\<rparr>, task2, task3]\<rparr>)"
proof -
  have res: "resolvesTask db0 ''w1'' ''p1'' ''t1'' task1"
    by (simp add: resolvesTask_def findOne_def db0_def task1_def)
  have ne: "task1 \<noteq> task2" "task1 \<noteq> task3"
    by (simp_all add: task1_def task2_def task3_def)
  have split: "pre = [] \<and> post = [task2, task3]" if "TaskModel db0 = pre @ task1 # post" for pre post
    using that ne by (auto simp add: db0_def Cons_eq_append_conv)
  have same: "db0\<lparr>MemberModel := MemberModel db0\<rparr> = db0"
    by simp
  from updateTask_clear_assignee
         [OF res, of ADMIN "noUpdate\<lparr>body_assignedTo := Null\<rparr>" "''alice''"]
  obtain pre post updated where
    a: "TaskModel db0 = pre @ task1 # post" "updated = task1\<lparr>assignedTo := None\<rparr>"
       "\<forall>members. updateTaskService (db0\<lparr>MemberModel := members\<rparr>) ''w1'' ''p1'' ''t1'' ''alice'' ADMIN
            (noUpdate\<lparr>body_assignedTo := Null\<rparr>) =
          (Inr updated, db0\<lparr>MemberModel := members, TaskModel := pre @ updated # post\<rparr>)"
    by (auto simp add: noUpdate_def)
  from a(3) have first: "updateTaskService db0 ''w1'' ''p1'' ''t1'' ''alice'' ADMIN
            (noUpdate\<lparr>body_assignedTo := Null\<rparr>) =
          (Inr updated, db0\<lparr>TaskModel := pre @ updated # post\<rparr>)"
    using same by (metis (no_types) store.surjective store.update_convs(2))
  from updateTask_clear_assignee
         [OF res, of OWNER "noUpdate\<lparr>body_assignedTo := Str [], body_title := Some ''Login''\<rparr>"
            "''alice''"]
  obtain pre' post' updated' where
    b: "TaskModel db0 = pre' @ task1 # post'"
       "updated' = task1\<lparr>title := ''Login'', assignedTo := None\<rparr>"
       "\<forall>members. updateTaskService (db0\<lparr>MemberModel := members\<rparr>) ''w1'' ''p1'' ''t1'' ''alice'' OWNER
            (noUpdate\<lparr>body_assignedTo := Str [], body_title := Some ''Login''\<rparr>) =
          (Inr updated', db0\<lparr>MemberModel := members, TaskModel := pre' @ updated' # post'\<rparr>)"
    by (auto simp add: noUpdate_def)
  from split[OF a(1)] split[OF b(1)] first a(2) b(2) b(3) show ?thesis
    by simp
qed

subsection \<open>Assigning a task to a user who is no member\<close>

text \<open>
  \<^bold>\<open>C3.\<close> Creating a task for a project of the workspace with an assignee who is no member
  of the workspace: \<^verbatim>\<open>createTaskService\<close> throws JavaScript's plain \<^verbatim>\<open>Error\<close> (line 60),
  which is none of the application's exceptions, and stores nothing. The same check in
  \<^verbatim>\<open>updateTaskService\<close> throws the bad request exception, as the lemma after the
  theorem shows.
\<close>

theorem createTask_nonmember_plain_Error:
  assumes "findOne (\<lambda>p. project_id p = projectId) (ProjectModel db) = Some project"
      and "project_workspace project = wsId"
      and "new_assignedTo body = Str a" and "a \<noteq> []"
      and "\<not> (\<exists>m \<in> set (MemberModel db). userId m = a \<and> workspaceId m = wsId)"
  shows "createTaskService db now newId wsId projectId uid body =
           (Inl (Error ''Assigned user is not a member of this workspace.''), db)"
proof -
  from assms(3,5) have "\<not> exists_doc (\<lambda>m. Str (userId m) = new_assignedTo body \<and> workspaceId m = wsId)
                            (MemberModel db)"
    by (auto simp add: exists_doc_def findOne_None_iff)
  with assms(1-4) show ?thesis
    by (simp add: createTaskService_def)
qed

theorem createTask_nonmember_plain_Error_witness:
  "createTaskService db0 1000 ''t9'' ''w1'' ''p1'' ''alice''
      \<lparr>new_title = ''Write docs'', new_description = None, new_priority = ''LOW'',
       new_status = ''TODO'', new_assignedTo = Str ''carol'', new_dueDate = None\<rparr> =
     (Inl (Error ''Assigned user is not a member of this workspace.''), db0)"
  using createTask_nonmember_plain_Error
          [of "''p1''" db0 "\<lparr>project_id = ''p1'', project_workspace = ''w1''\<rparr>" "''w1''"
              "\<lparr>new_title = ''Write docs'', new_description = None, new_priority = ''LOW'',
                new_status = ''TODO'', new_assignedTo = Str ''carol'', new_dueDate = None\<rparr>"
              "''carol''" 1000 "''t9''" "''alice''"]
  by (simp add: findOne_def db0_def)

lemma updateTask_nonmember_bad_request:
  assumes "resolvesTask db wsId projectId taskId task"
      and "userRole = OWNER \<or> userRole = ADMIN"
      and "body_assignedTo body = Str a" and "a \<noteq> []"
      and "\<not> (\<exists>m \<in> set (MemberModel db). userId m = a \<and> workspaceId m = wsId)"
  shows "updateTaskService db wsId projectId taskId uid userRole body =
           (Inl (BadRequestException ''Assigned user is not a member of this workspace''), db)"
proof -
  from assms(5) have "\<not> exists_doc (\<lambda>m. userId m = a \<and> workspaceId m = wsId) (MemberModel db)"
    by (auto simp add: exists_doc_def findOne_None_iff)
  with assms(3,4) have "buildUpdatePayload db wsId True body =
      Inl (BadRequestException ''Assigned user is not a member of this workspace'')"
    by (simp add: buildUpdatePayload_def assigneeUpdate_def Let_def)
  with assms(2) show ?thesis
    by (auto simp add: updateTaskService_resolved[OF assms(1)])
qed

lemma updateTask_nonmember_bad_request_witness:
  "updateTaskService db0 ''w1'' ''p1'' ''t1'' ''alice'' OWNER (noUpdate\<lparr>body_assignedTo := Str ''carol''\<rparr>) =
     (Inl (BadRequestException ''Assigned user is not a member of this workspace''), db0)"
proof -
  have res: "resolvesTask db0 ''w1'' ''p1'' ''t1'' task1"
    by (simp add: resolvesTask_def findOne_def db0_def task1_def)
  show ?thesis
    using updateTask_nonmember_bad_request
            [OF res, of OWNER "noUpdate\<lparr>body_assignedTo := Str ''carol''\<rparr>" "''carol''" "''alice''"]
    by (simp add: noUpdate_def db0_def)
qed

subsection \<open>A task outside the workspace\<close>

text \<open>
  \<^bold>\<open>C5.\<close> When the store has no task with the request's task identifier in the request's
  workspace, listing the clarifications, asking a question, responding, reading the task
  and deleting it fail as not-found and leave the store as it was. So does the update in
  a store that keeps the data model's invariant: the update looks the task up through
  its project (lines 97 to 111), and the project's workspace is the task's.
\<close>

theorem task_outside_workspace_not_found:
  assumes "\<not> (\<exists>t \<in> set (TaskModel db). task_id t = taskId \<and> task_workspace t = wsId)"
  shows "getTaskClarificationsService db wsId taskId =
           (Inl (NotFoundException ''Task not found or does not belong to this workspace''), db) \<and>
         createTaskClarificationService db now newId wsId taskId uid q =
           (Inl (NotFoundException ''Task not found or does not belong to this workspace''), db) \<and>
         respondToTaskClarificationService db now wsId taskId clarificationId uid msg =
           (Inl (NotFoundException ''Task not found or does not belong to this workspace''), db) \<and>
         (\<exists>why. getTaskByIdService db wsId projectId taskId = (Inl (NotFoundException why), db)) \<and>
         deleteTaskService db wsId taskId =
           (Inl (NotFoundException ''Task not found or does not belong to the specified workspace''),
            db) \<and>
         (tasksFollowProjects db \<longrightarrow>
            (\<exists>why. updateTaskService db wsId projectId taskId uid userRole body =
                     (Inl (NotFoundException why), db)))"
proof -
  from assms have none:
    "findOne (\<lambda>t. task_id t = taskId \<and> task_workspace t = wsId) (TaskModel db) = None"
    by (auto simp add: findOne_None_iff)
  then have verify: "verifyTaskBelongsToWorkspace db wsId taskId =
      Inl (NotFoundException ''Task not found or does not belong to this workspace'')"
    by (simp add: verifyTaskBelongsToWorkspace_def)
  have list: "getTaskClarificationsService db wsId taskId =
           (Inl (NotFoundException ''Task not found or does not belong to this workspace''), db)"
    by (simp add: getTaskClarificationsService_def verify)
  have ask: "createTaskClarificationService db now newId wsId taskId uid q =
           (Inl (NotFoundException ''Task not found or does not belong to this workspace''), db)"
    by (simp add: createTaskClarificationService_def verify)
  have respond: "respondToTaskClarificationService db now wsId taskId clarificationId uid msg =
           (Inl (NotFoundException ''Task not found or does not belong to this workspace''), db)"
    by (simp add: respondToTaskClarificationService_def verify)
  from assms have "findOne (\<lambda>t. task_id t = taskId \<and> task_workspace t = wsId \<and>
                               task_project t = projectId) (TaskModel db) = None"
    by (auto simp add: findOne_None_iff)
  then have get: "\<exists>why. getTaskByIdService db wsId projectId taskId = (Inl (NotFoundException why), db)"
    by (simp add: getTaskByIdService_def split: option.splits)
  have delete: "deleteTaskService db wsId taskId =
           (Inl (NotFoundException ''Task not found or does not belong to the specified workspace''),
            db)"
    by (simp add: deleteTaskService_def findOneAndDelete_def none findOne_None_deleteFirst[OF none])
  have update: "\<exists>why. updateTaskService db wsId projectId taskId uid userRole body =
                     (Inl (NotFoundException why), db)"
    if inv: "tasksFollowProjects db"
  proof (cases "findOne (\<lambda>p. project_id p = projectId) (ProjectModel db)")
    case None
    then show ?thesis by (simp add: updateTaskService_def)
  next
    case (Some project)
    show ?thesis
    proof (cases "project_workspace project = wsId")
      case False
      with Some show ?thesis by (simp add: updateTaskService_def)
    next
      case True
      show ?thesis
      proof (cases "findOne (\<lambda>t. task_id t = taskId) (TaskModel db)")
        case None
        with Some True show ?thesis by (simp add: updateTaskService_def)
      next
        case found: (Some task)
        then have mem: "task \<in> set (TaskModel db)" and tid: "task_id task = taskId"
          using findOne_Some_holds[OF found] by simp_all
        have "task_project task \<noteq> projectId"
        proof
          assume same: "task_project task = projectId"
          from inv mem have "case findOne (\<lambda>p. project_id p = task_project task) (ProjectModel db) of
                               None \<Rightarrow> True | Some p \<Rightarrow> project_workspace p = task_workspace task"
            by (simp add: tasksFollowProjects_def list_all_iff)
          with same Some True have "task_workspace task = wsId" by simp
          with mem tid assms show False by blast
        qed
        with Some True found show ?thesis by (simp add: updateTaskService_def)
      qed
    qed
  qed
  from list ask respond get delete update show ?thesis by blast
qed

theorem task_outside_workspace_not_found_witness:
  "getTaskClarificationsService db0 ''w2'' ''t1'' =
     (Inl (NotFoundException ''Task not found or does not belong to this workspace''), db0) \<and>
   createTaskClarificationService db0 500 ''c9'' ''w2'' ''t1'' ''carol'' ''Why is it late?'' =
     (Inl (NotFoundException ''Task not found or does not belong to this workspace''), db0) \<and>
   respondToTaskClarificationService db0 500 ''w2'' ''t1'' ''c1'' ''carol'' ''Soon'' =
     (Inl (NotFoundException ''Task not found or does not belong to this workspace''), db0) \<and>
   getTaskByIdService db0 ''w2'' ''p2'' ''t1'' = (Inl (NotFoundException ''Task not found.''), db0) \<and>
   deleteTaskService db0 ''w2'' ''t1'' =
     (Inl (NotFoundException ''Task not found or does not belong to the specified workspace''), db0) \<and>
   updateTaskService db0 ''w2'' ''p2'' ''t1'' ''carol'' OWNER (noUpdate\<lparr>body_status := Some ''DONE''\<rparr>) =
     (Inl (NotFoundException ''Task not found or does not belong to this project''), db0)"
proof -
  have out: "\<not> (\<exists>t \<in> set (TaskModel db0). task_id t = ''t1'' \<and> task_workspace t = ''w2'')"
    by (simp add: db0_def task1_def task2_def task3_def)
  have inv: "tasksFollowProjects db0"
    by (simp add: tasksFollowProjects_def db0_def task1_def task2_def task3_def findOne_def)
  have get: "getTaskByIdService db0 ''w2'' ''p2'' ''t1'' = (Inl (NotFoundException ''Task not found.''), db0)"
    by (simp add: getTaskByIdService_def db0_def task1_def task2_def task3_def findOne_def)
  have upd: "updateTaskService db0 ''w2'' ''p2'' ''t1'' ''carol'' OWNER (noUpdate\<lparr>body_status := Some ''DONE''\<rparr>) =
     (Inl (NotFoundException ''Task not found or does not belong to this project''), db0)"
    by (simp add: updateTaskService_def db0_def task1_def task2_def task3_def findOne_def)
  show ?thesis
    using task_outside_workspace_not_found
            [OF out, where now = 500 and newId = "''c9''" and uid = "''carol''"
               and q = "''Why is it late?''" and clarificationId = "''c1''" and msg = "''Soon''"
               and projectId = "''p2''" and userRole = OWNER
               and body = "noUpdate\<lparr>body_status := Some ''DONE''\<rparr>"]
          inv get upd
    by simp
qed

subsection \<open>Clarification responses\<close>

lemma responsesKept_refl: "responsesKept db db"
  by (simp add: responsesKept_def list_all2_same)

lemma responsesKept_same:
  "TaskClarificationModel db' = TaskClarificationModel db \<Longrightarrow> responsesKept db db'"
  by (simp add: responsesKept_def list_all2_same)

lemma responsesKept_trans:
  assumes "responsesKept a b" and "responsesKept b c"
  shows "responsesKept a c"
proof -
  let ?A = "TaskClarificationModel a" and ?B = "TaskClarificationModel b"
  and ?C = "TaskClarificationModel c"
  let ?R = "\<lambda>c c'. clarification_id c' = clarification_id c \<and> prefix (responses c) (responses c')"
  from assms have len: "length ?A \<le> length ?B" "length ?B \<le> length ?C"
    and ab: "list_all2 ?R ?A (take (length ?A) ?B)"
    and bc: "list_all2 ?R ?B (take (length ?B) ?C)"
    by (simp_all add: responsesKept_def)
  have "list_all2 ?R ?A (take (length ?A) ?C)"
  proof (rule list_all2_all_nthI)
    show "length ?A = length (take (length ?A) ?C)" using len by simp
  next
    fix n assume n: "n < length ?A"
    from ab n len have 1: "?R (?A ! n) (?B ! n)"
      by (auto simp add: list_all2_conv_all_nth)
    from bc n len have 2: "?R (?B ! n) (?C ! n)"
      by (auto simp add: list_all2_conv_all_nth)
    from 1 2 n show "?R (?A ! n) (take (length ?A) ?C ! n)"
      by (auto intro: prefix_order.trans)
  qed
  with len show ?thesis by (simp add: responsesKept_def)
qed

lemma updateFirst_pushResponse_kept:
  "list_all2 (\<lambda>c c'. clarification_id c' = clarification_id c \<and> prefix (responses c) (responses c'))
     cs (updateFirst P (pushResponse r) cs)"
  by (induction cs) (simp_all add: pushResponse_def list_all2_same)

lemma length_updateFirst [simp]: "length (updateFirst P f xs) = length xs"
  by (induction xs) simp_all

lemma createTaskService_clarifications:
  "TaskClarificationModel (snd (createTaskService db now newId wsId projectId uid body)) =
     TaskClarificationModel db"
  by (simp add: createTaskService_def Let_def split: option.splits)

lemma updateTaskService_clarifications:
  "TaskClarificationModel (snd (updateTaskService db wsId projectId taskId uid userRole body)) =
     TaskClarificationModel db"
  by (simp add: updateTaskService_def Let_def findOneAndUpdate_def split: option.splits sum.splits)

lemma getAllTasksService_store: "snd (getAllTasksService regexI db wsId filters pg) = db"
  by (simp add: getAllTasksService_def Let_def split: option.splits)

lemma getTaskByIdService_store: "snd (getTaskByIdService db wsId projectId taskId) = db"
  by (simp add: getTaskByIdService_def split: option.splits)

lemma getTaskClarificationsService_store: "snd (getTaskClarificationsService db wsId taskId) = db"
  by (simp add: getTaskClarificationsService_def split: sum.splits)

lemma deleteTaskService_clarifications:
  "TaskClarificationModel (snd (deleteTaskService db wsId taskId)) = TaskClarificationModel db"
  by (simp add: deleteTaskService_def findOneAndDelete_def split: option.splits)

lemma createTaskClarificationService_kept:
  "responsesKept db (snd (createTaskClarificationService db now newId wsId taskId uid q))"
  by (simp add: createTaskClarificationService_def Let_def responsesKept_def list_all2_same
        split: sum.splits)

lemma respondToTaskClarificationService_kept:
  "responsesKept db (snd (respondToTaskClarificationService db now wsId taskId cid uid msg))"
  by (simp add: respondToTaskClarificationService_def findOneAndUpdate_def responsesKept_def
        list_all2_same updateFirst_pushResponse_kept split: sum.splits option.splits)

lemma perform_kept: "responsesKept db (perform regexI db req)"
proof (cases req)
  case CreateTask
  then show ?thesis by (simp add: responsesKept_same createTaskService_clarifications)
next
  case UpdateTask
  then show ?thesis by (simp add: responsesKept_same updateTaskService_clarifications)
next
  case GetAllTasks
  then show ?thesis by (simp add: responsesKept_refl getAllTasksService_store)
next
  case GetTaskById
  then show ?thesis by (simp add: responsesKept_refl getTaskByIdService_store)
next
  case GetTaskClarifications
  then show ?thesis by (simp add: responsesKept_refl getTaskClarificationsService_store)
next
  case CreateTaskClarification
  then show ?thesis by (simp add: createTaskClarificationService_kept)
next
  case RespondToTaskClarification
  then show ?thesis by (simp add: respondToTaskClarificationService_kept)
next
  case DeleteTask
  then show ?thesis by (simp add: responsesKept_same deleteTaskService_clarifications)
qed

lemma run_kept: "responsesKept db (foldl (perform regexI) db reqs)"
proof (induction reqs rule: rev_induct)
  case Nil
  show ?case by (simp add: responsesKept_refl)
next
  case (snoc req reqs)
  have "responsesKept (foldl (perform regexI) db reqs)
          (perform regexI (foldl (perform regexI) db reqs) req)"
    by (rule perform_kept)
  with snoc.IH show ?case
    by (auto intro: responsesKept_trans)
qed

text \<open>
  \<^bold>\<open>C7.\<close> A response that is accepted is one new entry at the end of the responses of
  the clarification it names: the responses before it stay as they were, every other
  document stays, and when the earlier responses are in the order of their instants and
  none is later than the clock, the longer list is in that order too. Over any run of
  calls of the task service, each clarification stays in its place and its responses of
  before are the first responses of after: no call edits or removes a response.
\<close>

theorem responses_append_only:
  "(respondToTaskClarificationService db now wsId taskId clarificationId uid msg = (Inr c', db')
     \<longrightarrow> (\<exists>pre c post.
            TaskClarificationModel db = pre @ c # post \<and>
            c' = c\<lparr>responses := responses c @
                     [\<lparr>message = trim msg, respondedBy = uid, response_createdAt = now\<rparr>]\<rparr> \<and>
            db' = db\<lparr>TaskClarificationModel := pre @ c' # post\<rparr> \<and>
            (sorted (map response_createdAt (responses c)) \<and>
             (\<forall>r \<in> set (responses c). response_createdAt r \<le> now)
             \<longrightarrow> sorted (map response_createdAt (responses c'))))) \<and>
   responsesKept db (foldl (perform regexI) db requests)"
proof (intro conjI impI)
  assume ok: "respondToTaskClarificationService db now wsId taskId clarificationId uid msg = (Inr c', db')"
  let ?P = "\<lambda>c. clarification_id c = clarificationId \<and> clarification_workspace c = wsId \<and>
                 clarification_task c = taskId"
  let ?r = "\<lparr>message = trim msg, respondedBy = uid, response_createdAt = now\<rparr>"
  from ok obtain c where found: "findOne ?P (TaskClarificationModel db) = Some c"
    and c': "c' = pushResponse ?r c"
    and db': "db' = db\<lparr>TaskClarificationModel := updateFirst ?P (pushResponse ?r) (TaskClarificationModel db)\<rparr>"
    by (auto simp add: respondToTaskClarificationService_def findOneAndUpdate_def
          split: sum.splits option.splits)
  from findOne_updateFirst[OF found, of "pushResponse ?r"] obtain pre post where
    pp: "TaskClarificationModel db = pre @ c # post"
        "updateFirst ?P (pushResponse ?r) (TaskClarificationModel db) = pre @ pushResponse ?r c # post"
    by blast
  have ordered: "sorted (map response_createdAt (responses c')) "
    if "sorted (map response_createdAt (responses c)) \<and>
        (\<forall>r \<in> set (responses c). response_createdAt r \<le> now)"
    using that c' by (auto simp add: pushResponse_def sorted_append)
  from pp c' db' ordered
  show "\<exists>pre c post.
            TaskClarificationModel db = pre @ c # post \<and>
            c' = c\<lparr>responses := responses c @
                     [\<lparr>message = trim msg, respondedBy = uid, response_createdAt = now\<rparr>]\<rparr> \<and>
            db' = db\<lparr>TaskClarificationModel := pre @ c' # post\<rparr> \<and>
            (sorted (map response_createdAt (responses c)) \<and>
             (\<forall>r \<in> set (responses c). response_createdAt r \<le> now)
             \<longrightarrow> sorted (map response_createdAt (responses c')))"
    by (intro exI[of _ pre] exI[of _ c] exI[of _ post]) (simp add: pushResponse_def)
next
  show "responsesKept db (foldl (perform regexI) db requests)"
    by (rule run_kept)
qed


theorem responses_append_only_witness:
  "respondToTaskClarificationService db0 400 ''w1'' ''t1'' ''c1'' ''alice'' '' Soon '' =
     (Inr (clar1\<lparr>responses := responses clar1 @
             [\<lparr>message = ''Soon'', respondedBy = ''alice'', response_createdAt = 400\<rparr>]\<rparr>),
      db0\<lparr>TaskClarificationModel :=
            [clar1\<lparr>responses := responses clar1 @
               [\<lparr>message = ''Soon'', respondedBy = ''alice'', response_createdAt = 400\<rparr>]\<rparr>]\<rparr>) \<and>
   sorted (map response_createdAt
             (responses (clar1\<lparr>responses := responses clar1 @
                [\<lparr>message = ''Soon'', respondedBy = ''alice'', response_createdAt = 400\<rparr>]\<rparr>))) \<and>
   responsesKept db0
     (foldl (perform fragmentRegexI) db0
        [RespondToTaskClarification 400 ''w1'' ''t1'' ''c1'' ''alice'' '' Soon '',
         CreateTaskClarification 500 ''c2'' ''w1'' ''t1'' ''bob'' ''And then?'',
         DeleteTask ''w1'' ''t1''])"
proof -
  let ?c' = "clar1\<lparr>responses := responses clar1 @
             [\<lparr>message = ''Soon'', respondedBy = ''alice'', response_createdAt = 400\<rparr>]\<rparr>"
  let ?db' = "db0\<lparr>TaskClarificationModel := [?c']\<rparr>"
  have run: "respondToTaskClarificationService db0 400 ''w1'' ''t1'' ''c1'' ''alice'' '' Soon '' =
               (Inr ?c', ?db')"
    by (simp add: respondToTaskClarificationService_def verifyTaskBelongsToWorkspace_def
          findOneAndUpdate_def findOne_def pushResponse_def trim_def isWhiteSpace_def
          db0_def task1_def clar1_def)
  note inst = responses_append_only
      [of db0 400 "''w1''" "''t1''" "''c1''" "''alice''" "'' Soon ''" ?c' ?db' fragmentRegexI
          "[RespondToTaskClarification 400 ''w1'' ''t1'' ''c1'' ''alice'' '' Soon '',
            CreateTaskClarification 500 ''c2'' ''w1'' ''t1'' ''bob'' ''And then?'',
            DeleteTask ''w1'' ''t1'']"]
  from inst run obtain pre c post where
    pp: "TaskClarificationModel db0 = pre @ c # post"
    and ord: "sorted (map response_createdAt (responses c)) \<and>
              (\<forall>r \<in> set (responses c). response_createdAt r \<le> 400)
              \<longrightarrow> sorted (map response_createdAt (responses ?c'))"
    by blast
  from pp have "c = clar1"
    by (auto simp add: db0_def Cons_eq_append_conv)
  with ord have "sorted (map response_createdAt (responses ?c'))"
    by (simp add: clar1_def)
  with run inst show ?thesis by blast
qed

subsection \<open>Listing tasks\<close>

lemma sortNewestFirst_set [simp]: "set (sortNewestFirst created xs) = set xs"
  by (simp add: sortNewestFirst_def)

lemma sortNewestFirst_length [simp]: "length (sortNewestFirst created xs) = length xs"
  by (simp add: sortNewestFirst_def)

lemma sortNewestFirst_sorted:
  "sorted_wrt (\<lambda>a b. created b \<le> created a) (sortNewestFirst created xs)"
proof -
  have "sorted (map (\<lambda>x. - created x) (sortNewestFirst created xs))"
    by (simp add: sortNewestFirst_def)
  then show ?thesis
    by (simp add: sorted_wrt_map)
qed

lemma limitDocs_set: "set (limitDocs n xs) \<subseteq> set xs"
  by (auto simp add: limitDocs_def dest: in_set_takeD)

lemma limitDocs_sorted: "sorted_wrt R xs \<Longrightarrow> sorted_wrt R (limitDocs n xs)"
  by (simp add: limitDocs_def sorted_wrt_take)

lemma limitDocs_length: "n \<noteq> 0 \<Longrightarrow> int (length (limitDocs n xs)) \<le> \<bar>n\<bar>"
  by (simp add: limitDocs_def)

text \<open>What a listing that succeeds returns.\<close>

lemma getAllTasksService_Inr:
  assumes "getAllTasksService regexI db wsId filters pg = (Inr res, db')"
  shows "\<exists>titleMatches.
           (case query_title (buildQuery wsId filters) of
              None \<Rightarrow> Some (\<lambda>s. True) | Some p \<Rightarrow> regexI p) = Some titleMatches \<and>
           0 \<le> (pageNumber pg - 1) * pageSize pg \<and>
           tasks res = limitDocs (pageSize pg)
                         (drop (nat ((pageNumber pg - 1) * pageSize pg))
                            (sortNewestFirst createdAt
                               (filter (matchesQuery titleMatches (buildQuery wsId filters))
                                  (TaskModel db)))) \<and>
           pagination res =
             \<lparr>pageSize = pageSize pg, pageNumber = pageNumber pg,
              totalCount = length (filter (matchesQuery titleMatches (buildQuery wsId filters))
                                     (TaskModel db)),
              totalPages = ceilDiv (length (filter (matchesQuery titleMatches (buildQuery wsId filters))
                                              (TaskModel db))) (pageSize pg),
              skip = (pageNumber pg - 1) * pageSize pg\<rparr> \<and>
           db' = db"
  using assms
  by (auto simp add: getAllTasksService_def Let_def countDocuments_def
        split: option.splits if_splits)

lemma ceilDiv_div: "d \<noteq> 0 \<Longrightarrow> ceilDiv n d = Num (- ((- int n) div d))"
proof -
  have "\<lceil>real n / real_of_int d\<rceil> = - \<lfloor>real_of_int (- int n) / real_of_int d\<rfloor>"
    by (simp add: ceiling_def)
  also have "\<dots> = - ((- int n) div d)"
    by (simp only: floor_divide_of_int_eq)
  finally show ?thesis if "d \<noteq> 0"
    using that by (simp add: ceilDiv_def)
qed

lemma split_not_Nil: "split sep s \<noteq> []"
  by (induction s) (auto split: list.splits)

text \<open>The controller never hands the service an empty array as a filter.\<close>

lemma splitParam_not_Nil: "splitParam v = Some xs \<Longrightarrow> xs \<noteq> []"
  by (auto simp add: splitParam_def split_not_Nil)

text \<open>
  \<^bold>\<open>C8.\<close> A listing with a status filter (an array with an element) that succeeds
  returns tasks of the store and of the workspace whose status is one of the filter's, in
  the order of their creation, newest first.
\<close>

theorem listing_status_filter_newest_first:
  assumes "filter_status filters = Some sts" and "sts \<noteq> []"
      and "getAllTasksService regexI db wsId filters pg = (Inr res, db')"
  shows "(\<forall>t \<in> set (tasks res). t \<in> set (TaskModel db) \<and> task_workspace t = wsId \<and>
                                  status t \<in> set sts) \<and>
         sorted_wrt (\<lambda>a b. createdAt b \<le> createdAt a) (tasks res)"
proof -
  from getAllTasksService_Inr[OF assms(3)] obtain titleMatches where
    t: "tasks res = limitDocs (pageSize pg)
                      (drop (nat ((pageNumber pg - 1) * pageSize pg))
                         (sortNewestFirst createdAt
                            (filter (matchesQuery titleMatches (buildQuery wsId filters))
                               (TaskModel db))))"
    by blast
  have q: "query_status (buildQuery wsId filters) = Some sts"
    using assms(1,2) by (simp add: buildQuery_def nonEmptyArray_def)
  have "set (tasks res) \<subseteq> set (filter (matchesQuery titleMatches (buildQuery wsId filters))
                                 (TaskModel db))"
    unfolding t using limitDocs_set set_drop_subset sortNewestFirst_set
    by (metis (no_types, lifting) subset_trans)
  moreover have "task_workspace x = wsId \<and> status x \<in> set sts"
    if "matchesQuery titleMatches (buildQuery wsId filters) x" for x
    using that q by (simp add: matchesQuery_def inList_def buildQuery_def)
  ultimately have members: "\<forall>t \<in> set (tasks res). t \<in> set (TaskModel db) \<and> task_workspace t = wsId \<and>
                                  status t \<in> set sts"
    by auto
  have "sorted_wrt (\<lambda>a b. createdAt b \<le> createdAt a) (tasks res)"
    unfolding t by (intro limitDocs_sorted sorted_wrt_drop sortNewestFirst_sorted)
  with members show ?thesis by blast
qed

lemma listing_w1_by_status:
  "getAllTasksService fragmentRegexI db0 ''w1''
       (noFilters\<lparr>filter_status := Some [''TODO'', ''DONE'']\<rparr>) \<lparr>pageSize = 10, pageNumber = 1\<rparr> =
     (Inr \<lparr>tasks = [task2, task1],
           pagination = \<lparr>pageSize = 10, pageNumber = 1, totalCount = 2, totalPages = Num 1,
                          skip = 0\<rparr>\<rparr>, db0)"
  by (simp add: getAllTasksService_def buildQuery_def noFilters_def truthyString_def
        nonEmptyArray_def matchesQuery_def inList_def limitDocs_def sortNewestFirst_def
        countDocuments_def ceilDiv_div db0_def task1_def task2_def task3_def)

theorem listing_status_filter_newest_first_witness:
  "getAllTasksService fragmentRegexI db0 ''w1''
       (noFilters\<lparr>filter_status := Some [''TODO'', ''DONE'']\<rparr>) \<lparr>pageSize = 10, pageNumber = 1\<rparr> =
     (Inr \<lparr>tasks = [task2, task1],
           pagination = \<lparr>pageSize = 10, pageNumber = 1, totalCount = 2, totalPages = Num 1,
                          skip = 0\<rparr>\<rparr>, db0) \<and>
   list_all (\<lambda>t. status t \<in> set [''TODO'', ''DONE'']) [task2, task1] \<and>
   sorted_wrt (\<lambda>a b. createdAt b \<le> createdAt a) [task2, task1]"
  using listing_status_filter_newest_first
          [OF _ _ listing_w1_by_status, of "[''TODO'', ''DONE'']"]
        listing_w1_by_status
  by (simp add: noFilters_def)

subsection \<open>Pagination\<close>

lemma ceilDiv_bounds:
  assumes "0 < d"
  shows "\<exists>k. ceilDiv n d = Num k \<and> int n \<le> k * d \<and> (k - 1) * d < int n"
proof -
  define m where "m = (- int n) div d"
  define r where "r = (- int n) mod d"
  have eq: "d * m + r = - int n"
    unfolding m_def r_def by (rule mult_div_mod_eq)
  have r: "0 \<le> r" "r < d"
    unfolding r_def using assms by simp_all
  have k: "ceilDiv n d = Num (- m)"
    unfolding m_def using assms by (simp add: ceilDiv_div)
  have "(- m) * d = - (d * m)" "(- m - 1) * d = - (d * m) - d"
    by (simp_all add: algebra_simps)
  with eq r have "int n \<le> (- m) * d" "(- m - 1) * d < int n"
    by linarith+
  with k show ?thesis by blast
qed

lemma parseIntOr_default: "unparsable v \<Longrightarrow> parseIntOr v d = d"
  by (simp add: unparsable_def parseIntOr_def split: option.splits)

lemma parseIntOr_nonzero: "d \<noteq> 0 \<Longrightarrow> parseIntOr v d \<noteq> 0"
  by (simp add: parseIntOr_def split: option.splits)

text \<open>With the default page number nothing is skipped, so the listing returns whenever
  the caller is let in and the store accepts the keyword.\<close>

lemma listing_defaults_return:
  assumes "workspaceIdSchema env (param_workspaceId req) = Inr wsId"
      and "getMemberRoleInWorkspace env (req_user req) wsId = Inr role"
      and "roleGuard env role [VIEW_ONLY] = None"
      and "unparsable (req_pageNumber req)"
      and "case truthyString (req_keyword req) of None \<Rightarrow> True | Some k \<Rightarrow> regexI k \<noteq> None"
  shows "\<exists>res. getAllTasksController env regexI db req = (Inr res, db)"
  using assms
  by (auto simp add: getAllTasksController_def getAllTasksService_def Let_def buildQuery_def
        parseIntOr_default split: option.splits)

text \<open>
  \<^bold>\<open>C9.\<close> In the answer of the listing controller: a page size that is missing or that
  \<^verbatim>\<open>parseInt\<close> cannot read is 10, and at most ten tasks come back; a page number that is
  missing or cannot be read is 1, and nothing is skipped; the skip is
  \<open>(pageNumber - 1) * pageSize\<close>; the page count is the ceiling of
  \<open>totalCount / pageSize\<close>, which for a positive page size is the least number of pages
  that hold all the tasks counted.
\<close>

theorem listing_pagination_defaults:
  assumes "getAllTasksController env regexI db req = (Inr res, db')"
  shows "(unparsable (req_pageSize req)
            \<longrightarrow> pageSize (pagination res) = 10 \<and> length (tasks res) \<le> 10) \<and>
         (unparsable (req_pageNumber req)
            \<longrightarrow> pageNumber (pagination res) = 1 \<and> skip (pagination res) = 0) \<and>
         pageSize (pagination res) = parseIntOr (req_pageSize req) 10 \<and>
         pageNumber (pagination res) = parseIntOr (req_pageNumber req) 1 \<and>
         skip (pagination res) = (pageNumber (pagination res) - 1) * pageSize (pagination res) \<and>
         totalPages (pagination res) =
           Num \<lceil>real (totalCount (pagination res)) / real_of_int (pageSize (pagination res))\<rceil> \<and>
         (0 < pageSize (pagination res)
            \<longrightarrow> (\<exists>k. totalPages (pagination res) = Num k \<and>
                     int (totalCount (pagination res)) \<le> k * pageSize (pagination res) \<and>
                     (k - 1) * pageSize (pagination res) < int (totalCount (pagination res))))"
proof -
  let ?pg = "\<lparr>pageSize = parseIntOr (req_pageSize req) 10,
              pageNumber = parseIntOr (req_pageNumber req) 1\<rparr>"
  from assms obtain wsId filters where
    run: "getAllTasksService regexI db wsId filters ?pg = (Inr res, db')"
    by (auto simp add: getAllTasksController_def Let_def split: sum.splits option.splits)
  from getAllTasksService_Inr[OF run] obtain found n where
    t: "tasks res = limitDocs (pageSize ?pg) found"
    and p: "pagination res =
              \<lparr>pageSize = pageSize ?pg, pageNumber = pageNumber ?pg, totalCount = n,
               totalPages = ceilDiv n (pageSize ?pg),
               skip = (pageNumber ?pg - 1) * pageSize ?pg\<rparr>"
    by blast
  have size: "pageSize (pagination res) = parseIntOr (req_pageSize req) 10"
    and number: "pageNumber (pagination res) = parseIntOr (req_pageNumber req) 1"
    and skips: "skip (pagination res) = (pageNumber (pagination res) - 1) * pageSize (pagination res)"
    and count: "totalCount (pagination res) = n"
    and pages: "totalPages (pagination res) = ceilDiv n (parseIntOr (req_pageSize req) 10)"
    by (simp_all add: p)
  have nz: "parseIntOr (req_pageSize req) 10 \<noteq> 0"
    by (rule parseIntOr_nonzero) simp
  have a: "pageSize (pagination res) = 10 \<and> length (tasks res) \<le> 10"
    if "unparsable (req_pageSize req)"
    using that size t by (simp add: parseIntOr_default limitDocs_def)
  have b: "pageNumber (pagination res) = 1 \<and> skip (pagination res) = 0"
    if "unparsable (req_pageNumber req)"
    using that number skips by (simp add: parseIntOr_default)
  have c: "totalPages (pagination res) =
           Num \<lceil>real (totalCount (pagination res)) / real_of_int (pageSize (pagination res))\<rceil>"
    using nz by (simp add: pages count size ceilDiv_def)
  have d: "\<exists>k. totalPages (pagination res) = Num k \<and>
               int (totalCount (pagination res)) \<le> k * pageSize (pagination res) \<and>
               (k - 1) * pageSize (pagination res) < int (totalCount (pagination res))"
    if "0 < pageSize (pagination res)"
  proof -
    from that size have pos: "0 < parseIntOr (req_pageSize req) 10" by simp
    from ceilDiv_bounds[OF pos, of n] show ?thesis
      by (simp add: pages count size)
  qed
  from a b c d size number skips show ?thesis by blast
qed

lemma plain_listing:
  "getAllTasksController openDoors fragmentRegexI db0 (plainRequest\<lparr>req_pageSize := Some ''abc''\<rparr>) =
     (Inr \<lparr>tasks = [task2, task1],
           pagination = \<lparr>pageSize = 10, pageNumber = 1, totalCount = 2, totalPages = Num 1,
                          skip = 0\<rparr>\<rparr>, db0)"
proof -
  have "parseIntOr (Some ''abc'') 10 = 10" "parseIntOr None 1 = 1"
    by code_simp+
  then show ?thesis
    by (simp add: getAllTasksController_def openDoors_def plainRequest_def splitParam_def
          getAllTasksService_def buildQuery_def truthyString_def
          nonEmptyArray_def matchesQuery_def inList_def limitDocs_def sortNewestFirst_def
          countDocuments_def ceilDiv_div db0_def task1_def task2_def task3_def)
qed

theorem listing_pagination_defaults_witness:
  "unparsable (Some ''abc'') \<and> unparsable None \<and>
   getAllTasksController openDoors fragmentRegexI db0 (plainRequest\<lparr>req_pageSize := Some ''abc''\<rparr>) =
     (Inr \<lparr>tasks = [task2, task1],
           pagination = \<lparr>pageSize = 10, pageNumber = 1, totalCount = 2, totalPages = Num 1,
                          skip = 0\<rparr>\<rparr>, db0) \<and>
   Num 1 = Num \<lceil>real 2 / real_of_int 10\<rceil>"
proof -
  have u: "unparsable (Some ''abc'')" "unparsable None"
    by code_simp+
  from listing_pagination_defaults[OF plain_listing] have
    "Num 1 = Num \<lceil>real 2 / real_of_int 10\<rceil>"
    by simp
  with u plain_listing show ?thesis by blast
qed

subsection \<open>The keyword filter\<close>

lemma parsePattern_plain:
  "set k \<inter> set metacharacters = {} \<Longrightarrow> parsePattern k = Some (map Lit k)"
  by (induction k) (auto simp add: metacharacters_def)

lemma matchHere_Lit: "matchHere (map Lit k) s = prefix (map toLower k) (map toLower s)"
proof (induction k arbitrary: s)
  case Nil
  show ?case by simp
next
  case (Cons c k)
  show ?case by (cases s) (simp_all add: Cons.IH)
qed

lemma search_Lit: "search (map Lit k) s = sublist (map toLower k) (map toLower s)"
proof (induction s)
  case Nil
  show ?case by (cases k) simp_all
next
  case (Cons c s)
  then show ?case
    by (simp add: matchHere_Lit sublist_Cons_right del: matchHere.simps)
qed

lemma fragmentRegexI_plain:
  "set k \<inter> set metacharacters = {} \<Longrightarrow> fragmentRegexI k = Some (containsIgnoringCase k)"
  by (auto simp add: fragmentRegexI_def parsePattern_plain search_Lit containsIgnoringCase_def)

text \<open>
  \<^bold>\<open>C6\<close>, as the code has it. The keyword is the pattern of a regular expression. When it
  is not empty and holds no metacharacter, and it is the only filter, the tasks the query
  matches are the tasks of the workspace whose title contains the keyword, letter case
  ignored: the answer counts them and returns one page of them, newest first, which is
  all of them when they fit into the first page.
\<close>

theorem listing_plain_keyword:
  assumes "k \<noteq> []" and "set k \<inter> set metacharacters = {}"
      and "0 \<le> (pageNumber pg - 1) * pageSize pg"
  shows "\<exists>res. getAllTasksService fragmentRegexI db wsId (noFilters\<lparr>filter_keyword := Some k\<rparr>) pg =
                 (Inr res, db) \<and>
               tasks res =
                 limitDocs (pageSize pg)
                   (drop (nat ((pageNumber pg - 1) * pageSize pg))
                      (sortNewestFirst createdAt
                         (filter (\<lambda>t. task_workspace t = wsId \<and> containsIgnoringCase k (title t))
                            (TaskModel db)))) \<and>
               totalCount (pagination res) =
                 length (filter (\<lambda>t. task_workspace t = wsId \<and> containsIgnoringCase k (title t))
                           (TaskModel db)) \<and>
               (pageNumber pg = 1 \<and>
                (pageSize pg = 0 \<or> int (totalCount (pagination res)) \<le> \<bar>pageSize pg\<bar>)
                \<longrightarrow> set (tasks res) =
                      {t \<in> set (TaskModel db).
                         task_workspace t = wsId \<and> containsIgnoringCase k (title t)})"
proof -
  let ?q = "buildQuery wsId (noFilters\<lparr>filter_keyword := Some k\<rparr>)"
  let ?M = "\<lambda>t. task_workspace t = wsId \<and> containsIgnoringCase k (title t)"
  let ?found = "sortNewestFirst createdAt (filter ?M (TaskModel db))"
  have q: "query_title ?q = Some k"
    using assms(1) by (simp add: buildQuery_def truthyString_def)
  have m: "matchesQuery (containsIgnoringCase k) ?q = ?M"
    by (rule ext)
       (simp add: matchesQuery_def buildQuery_def noFilters_def truthyString_def
          nonEmptyArray_def inList_def)
  let ?res = "\<lparr>tasks = limitDocs (pageSize pg) (drop (nat ((pageNumber pg - 1) * pageSize pg)) ?found),
               pagination = \<lparr>pageSize = pageSize pg, pageNumber = pageNumber pg,
                              totalCount = length (filter ?M (TaskModel db)),
                              totalPages = ceilDiv (length (filter ?M (TaskModel db))) (pageSize pg),
                              skip = (pageNumber pg - 1) * pageSize pg\<rparr>\<rparr>"
  have run: "getAllTasksService fragmentRegexI db wsId (noFilters\<lparr>filter_keyword := Some k\<rparr>) pg =
               (Inr ?res, db)"
    using assms(3)
    by (simp add: getAllTasksService_def Let_def q fragmentRegexI_plain[OF assms(2)] m
          countDocuments_def)
  have whole: "set (tasks ?res) = {t \<in> set (TaskModel db). ?M t}"
    if "pageNumber pg = 1 \<and>
        (pageSize pg = 0 \<or> int (totalCount (pagination ?res)) \<le> \<bar>pageSize pg\<bar>)"
    using that by (auto simp add: limitDocs_def)
  from run whole show ?thesis
    by (intro exI[of _ ?res]) simp
qed

theorem listing_plain_keyword_witness:
  "getAllTasksService fragmentRegexI db0 ''w1'' (noFilters\<lparr>filter_keyword := Some ''LOG''\<rparr>)
       \<lparr>pageSize = 10, pageNumber = 1\<rparr> =
     (Inr \<lparr>tasks = [task1],
           pagination = \<lparr>pageSize = 10, pageNumber = 1, totalCount = 1, totalPages = Num 1,
                          skip = 0\<rparr>\<rparr>, db0) \<and>
   [task1] = limitDocs 10 (drop 0 (sortNewestFirst createdAt
                (filter (\<lambda>t. task_workspace t = ''w1'' \<and> containsIgnoringCase ''LOG'' (title t))
                   (TaskModel db0))))"
proof -
  have run: "getAllTasksService fragmentRegexI db0 ''w1'' (noFilters\<lparr>filter_keyword := Some ''LOG''\<rparr>)
       \<lparr>pageSize = 10, pageNumber = 1\<rparr> =
     (Inr \<lparr>tasks = [task1],
           pagination = \<lparr>pageSize = 10, pageNumber = 1, totalCount = 1, totalPages = Num 1,
                          skip = 0\<rparr>\<rparr>, db0)"
    by (simp add: getAllTasksService_def buildQuery_def noFilters_def truthyString_def
          fragmentRegexI_def metacharacters_def toLower_def
          nonEmptyArray_def matchesQuery_def inList_def limitDocs_def sortNewestFirst_def
          countDocuments_def ceilDiv_div db0_def task1_def task2_def task3_def)
  have plain: "''LOG'' \<noteq> []" "set ''LOG'' \<inter> set metacharacters = {}"
    by (simp_all add: metacharacters_def)
  from listing_plain_keyword
         [OF plain, of "\<lparr>pageSize = 10, pageNumber = 1\<rparr>" db0 "''w1''"] run
  show ?thesis by auto
qed

text \<open>The claim as it was stated fails for a keyword with a metacharacter: the keyword
  \<^verbatim>\<open>.\<close> returns both tasks of the workspace, and neither title contains a dot.\<close>

theorem listing_keyword_metacharacter_counterexample:
  "getAllTasksService fragmentRegexI db0 ''w1'' (noFilters\<lparr>filter_keyword := Some ''.''\<rparr>)
       \<lparr>pageSize = 10, pageNumber = 1\<rparr> =
     (Inr \<lparr>tasks = [task2, task1],
           pagination = \<lparr>pageSize = 10, pageNumber = 1, totalCount = 2, totalPages = Num 1,
                          skip = 0\<rparr>\<rparr>, db0) \<and>
   \<not> containsIgnoringCase ''.'' (title task2) \<and>
   \<not> containsIgnoringCase ''.'' (title task1) \<and>
   filter (\<lambda>t. task_workspace t = ''w1'' \<and> containsIgnoringCase ''.'' (title t)) (TaskModel db0) = []"
proof -
  have rx: "fragmentRegexI ''.'' = Some (search [AnyChar])"
    by (simp add: fragmentRegexI_def)
  have c: "\<not> containsIgnoringCase ''.'' (title task1)" "\<not> containsIgnoringCase ''.'' (title task2)"
    "\<not> containsIgnoringCase ''.'' (title task3)"
    by (simp_all add: containsIgnoringCase_def toLower_def sublist_Cons_right
          task1_def task2_def task3_def)
  have run: "getAllTasksService fragmentRegexI db0 ''w1'' (noFilters\<lparr>filter_keyword := Some ''.''\<rparr>)
       \<lparr>pageSize = 10, pageNumber = 1\<rparr> =
     (Inr \<lparr>tasks = [task2, task1],
           pagination = \<lparr>pageSize = 10, pageNumber = 1, totalCount = 2, totalPages = Num 1,
                          skip = 0\<rparr>\<rparr>, db0)"
    by (simp add: getAllTasksService_def buildQuery_def noFilters_def truthyString_def rx
          nonEmptyArray_def matchesQuery_def inList_def limitDocs_def sortNewestFirst_def
          countDocuments_def ceilDiv_div db0_def task1_def task2_def task3_def)
  from c have "filter (\<lambda>t. task_workspace t = ''w1'' \<and> containsIgnoringCase ''.'' (title t))
                 (TaskModel db0) = []"
    by (simp add: db0_def)
  with run c show ?thesis by blast
qed

subsection \<open>The invariant is kept\<close>

text \<open>A request that does not pass the two lookups of the update is answered
  not-found.\<close>

lemma updateTask_unresolved_not_found:
  assumes "\<not> (\<exists>task. resolvesTask db wsId projectId taskId task)"
  shows "\<exists>why. updateTaskService db wsId projectId taskId uid userRole body =
                 (Inl (NotFoundException why), db)"
  using assms
  by (auto simp add: updateTaskService_def resolvesTask_def split: option.splits)

lemma list_all_updateFirst:
  "list_all Q xs \<Longrightarrow> (\<And>x. Q x \<Longrightarrow> Q (f x)) \<Longrightarrow> list_all Q (updateFirst P f xs)"
  by (induction xs) auto

lemma list_all_deleteFirst: "list_all Q xs \<Longrightarrow> list_all Q (deleteFirst P xs)"
  by (induction xs) auto

lemma applyUpdate_place [simp]:
  "task_project (applyUpdate u t) = task_project t"
  "task_workspace (applyUpdate u t) = task_workspace t"
  by (simp_all add: applyUpdate_def)

lemma follows_Cons_iff:
  "tasksFollowProjects (db\<lparr>TaskModel := ts\<rparr>) =
     list_all (\<lambda>t. case findOne (\<lambda>p. project_id p = task_project t) (ProjectModel db) of
                     None \<Rightarrow> True | Some p \<Rightarrow> project_workspace p = task_workspace t) ts"
  by (simp add: tasksFollowProjects_def)

lemma createTaskService_follows:
  assumes "tasksFollowProjects db"
  shows "tasksFollowProjects (snd (createTaskService db now newId wsId projectId uid body))"
proof (cases "findOne (\<lambda>p. project_id p = projectId) (ProjectModel db)")
  case None
  with assms show ?thesis by (simp add: createTaskService_def)
next
  case (Some project)
  from assms have old: "list_all (\<lambda>t. case findOne (\<lambda>p. project_id p = task_project t) (ProjectModel db) of
                     None \<Rightarrow> True | Some p \<Rightarrow> project_workspace p = task_workspace t) (TaskModel db)"
    by (simp add: tasksFollowProjects_def)
  show ?thesis
  proof (cases "project_workspace project = wsId")
    case False
    with Some assms show ?thesis by (simp add: createTaskService_def)
  next
    case True
    with Some assms old show ?thesis
      by (simp add: createTaskService_def Let_def follows_Cons_iff)
  qed
qed

lemma updateTaskService_follows:
  assumes "tasksFollowProjects db"
  shows "tasksFollowProjects (snd (updateTaskService db wsId projectId taskId uid userRole body))"
proof (cases "\<exists>task. resolvesTask db wsId projectId taskId task")
  case False
  from updateTask_unresolved_not_found[OF False]
  obtain why where "updateTaskService db wsId projectId taskId uid userRole body =
                      (Inl (NotFoundException why), db)"
    by blast
  with assms show ?thesis by simp
next
  case True
  then obtain task where res: "resolvesTask db wsId projectId taskId task" by blast
  let ?Q = "\<lambda>t. case findOne (\<lambda>p. project_id p = task_project t) (ProjectModel db) of
                  None \<Rightarrow> True | Some p \<Rightarrow> project_workspace p = task_workspace t"
  from assms have old: "list_all ?Q (TaskModel db)"
    by (simp add: tasksFollowProjects_def)
  have keep: "?Q (applyUpdate u x)" if "?Q x" for u x
    using that by (simp split: option.splits)
  have new: "list_all ?Q (updateFirst P (applyUpdate u) (TaskModel db))" for P u
    using old keep by (rule list_all_updateFirst)
  show ?thesis
    using assms new
    by (simp add: updateTaskService_resolved[OF res] Let_def follows_Cons_iff split: sum.splits)
qed

lemma deleteTaskService_follows:
  assumes "tasksFollowProjects db"
  shows "tasksFollowProjects (snd (deleteTaskService db wsId taskId))"
proof -
  let ?Q = "\<lambda>t. case findOne (\<lambda>p. project_id p = task_project t) (ProjectModel db) of
                  None \<Rightarrow> True | Some p \<Rightarrow> project_workspace p = task_workspace t"
  from assms have "list_all ?Q (TaskModel db)"
    by (simp add: tasksFollowProjects_def)
  then have "list_all ?Q (deleteFirst P (TaskModel db))" for P
    by (rule list_all_deleteFirst)
  then show ?thesis
    by (simp add: deleteTaskService_def findOneAndDelete_def follows_Cons_iff split: option.splits)
qed

lemma clarifications_follow:
  "ProjectModel db' = ProjectModel db \<Longrightarrow> TaskModel db' = TaskModel db \<Longrightarrow>
     tasksFollowProjects db' = tasksFollowProjects db"
  by (simp add: tasksFollowProjects_def)

lemma createTaskClarificationService_tasks:
  "ProjectModel (snd (createTaskClarificationService db now newId wsId taskId uid q)) = ProjectModel db"
  "TaskModel (snd (createTaskClarificationService db now newId wsId taskId uid q)) = TaskModel db"
  by (simp_all add: createTaskClarificationService_def Let_def split: sum.splits)

lemma respondToTaskClarificationService_tasks:
  "ProjectModel (snd (respondToTaskClarificationService db now wsId taskId cid uid msg)) = ProjectModel db"
  "TaskModel (snd (respondToTaskClarificationService db now wsId taskId cid uid msg)) = TaskModel db"
  by (simp_all add: respondToTaskClarificationService_def findOneAndUpdate_def
        split: sum.splits option.splits)

lemma perform_follows:
  assumes "tasksFollowProjects db"
  shows "tasksFollowProjects (perform regexI db req)"
proof (cases req)
  case CreateTask
  with assms show ?thesis by (simp add: createTaskService_follows)
next
  case UpdateTask
  with assms show ?thesis by (simp add: updateTaskService_follows)
next
  case GetAllTasks
  with assms show ?thesis by (simp add: getAllTasksService_store)
next
  case GetTaskById
  with assms show ?thesis by (simp add: getTaskByIdService_store)
next
  case GetTaskClarifications
  with assms show ?thesis by (simp add: getTaskClarificationsService_store)
next
  case (CreateTaskClarification now newId wsId taskId uid q)
  have "tasksFollowProjects (snd (createTaskClarificationService db now newId wsId taskId uid q)) =
          tasksFollowProjects db"
    by (rule clarifications_follow) (rule createTaskClarificationService_tasks)+
  with assms CreateTaskClarification show ?thesis by simp
next
  case (RespondToTaskClarification now wsId taskId cid uid msg)
  have "tasksFollowProjects (snd (respondToTaskClarificationService db now wsId taskId cid uid msg)) =
          tasksFollowProjects db"
    by (rule clarifications_follow) (rule respondToTaskClarificationService_tasks)+
  with assms RespondToTaskClarification show ?thesis by simp
next
  case DeleteTask
  with assms show ?thesis by (simp add: deleteTaskService_follows)
qed

text \<open>Every call of the task service keeps the data model's invariant: a new task is
  stored under a project of its workspace, and no call moves a task or a project. So the
  invariant holds in every store that a run of calls reaches from one that has it, the
  empty store for one.\<close>

theorem tasksFollowProjects_run:
  assumes "tasksFollowProjects db"
  shows "tasksFollowProjects (foldl (perform regexI) db reqs)"
  using assms
proof (induction reqs arbitrary: db)
  case Nil
  then show ?case by simp
next
  case (Cons req reqs)
  from Cons.prems have "tasksFollowProjects (perform regexI db req)"
    by (rule perform_follows)
  from Cons.IH[OF this] show ?case by simp
qed

theorem tasksFollowProjects_run_witness:
  "tasksFollowProjects db0 \<and>
   tasksFollowProjects
     (foldl (perform fragmentRegexI) db0
        [CreateTask 600 ''t4'' ''w1'' ''p1'' ''alice''
           \<lparr>new_title = ''Write docs'', new_description = None, new_priority = [],
            new_status = [], new_assignedTo = Null, new_dueDate = Some EmptyString\<rparr>,
         UpdateTask ''w1'' ''p1'' ''t4'' ''alice'' OWNER (noUpdate\<lparr>body_assignedTo := Str ''bob''\<rparr>),
         DeleteTask ''w1'' ''t2''])"
proof -
  have inv: "tasksFollowProjects db0"
    by (simp add: tasksFollowProjects_def db0_def task1_def task2_def task3_def findOne_def)
  show ?thesis
  proof (rule conjI)
    show "tasksFollowProjects db0" by (rule inv)
  next
    show "tasksFollowProjects
     (foldl (perform fragmentRegexI) db0
        [CreateTask 600 ''t4'' ''w1'' ''p1'' ''alice''
           \<lparr>new_title = ''Write docs'', new_description = None, new_priority = [],
            new_status = [], new_assignedTo = Null, new_dueDate = Some EmptyString\<rparr>,
         UpdateTask ''w1'' ''p1'' ''t4'' ''alice'' OWNER (noUpdate\<lparr>body_assignedTo := Str ''bob''\<rparr>),
         DeleteTask ''w1'' ''t2''])"
      by (rule tasksFollowProjects_run[OF inv])
  qed
qed

end
